theory Spec2Isabelle
  imports Main "HOL-Library.Sublist" "HOL-Library.Code_Target_Nat"
begin

section \<open>Shared modelling vocabulary\<close>

text \<open>
  The bot is written against three libraries (python-telegram-bot, Pyrogram/Telethon and
  Pillow) and a handful of repository modules that are outside \<^verbatim>\<open>src/\<close>
  (\<^verbatim>\<open>config.settings\<close>, \<^verbatim>\<open>utils.clients\<close>,
  \<^verbatim>\<open>utils.scheduler\<close>, \<^verbatim>\<open>utils.scheduler_utils\<close>,
  \<^verbatim>\<open>handlers.media_handler\<close>, \<^verbatim>\<open>database.manager\<close>).
  Every call into them is an oracle of an environment record: the environment says what the
  call returns or raises and which file it leaves on disk; the handlers of \<^verbatim>\<open>src/\<close>
  are translated statement by statement around those oracles.
\<close>

subsection \<open>The file system\<close>

record file_info =
  fsize :: nat
  isfile :: bool
  readable :: bool

type_synonym fs = "string \<rightharpoonup> file_info"

definition regular_file :: "nat \<Rightarrow> file_info" where
  "regular_file n = \<lparr>fsize = n, isfile = True, readable = True\<rparr>"

text \<open>\<^verbatim>\<open>os.path.exists\<close>, \<^verbatim>\<open>os.path.getsize\<close>.\<close>

definition path_exists :: "fs \<Rightarrow> string \<Rightarrow> bool" where
  "path_exists f p = (f p \<noteq> None)"

definition getsize :: "fs \<Rightarrow> string \<Rightarrow> nat" where
  "getsize f p = (case f p of None \<Rightarrow> 0 | Some i \<Rightarrow> fsize i)"

text \<open>
  \<^verbatim>\<open>os.remove\<close> inside \<^verbatim>\<open>try: ... except: pass\<close>: the oracle
  \<open>rm_ok\<close> says whether the operating system lets the file go; a refused removal
  leaves the file where it is and is swallowed.
\<close>

definition try_remove :: "(string \<Rightarrow> bool) \<Rightarrow> fs \<Rightarrow> string \<Rightarrow> fs" where
  "try_remove rm_ok f p = (if path_exists f p \<and> rm_ok p then f(p := None) else f)"

text \<open>\<^verbatim>\<open>os.path.join(a, b)\<close> for a relative \<open>b\<close>.\<close>

definition path_join :: "string \<Rightarrow> string \<Rightarrow> string" where
  "path_join a b = (if a = [] then b else if last a = CHR ''/'' then a @ b else a @ ''/'' @ b)"

section \<open>\<^verbatim>\<open>utils/thumb_utils.py\<close>\<close>

subsection \<open>\<^verbatim>\<open>optimize_thumbnail\<close>\<close>

text \<open>
  The three attributes of \<^verbatim>\<open>config.settings\<close> that the function reads
  (\<^verbatim>\<open>thumb_size\<close> only feeds \<^verbatim>\<open>img.thumbnail\<close>, whose effect is part
  of the encoder oracle below).
\<close>

record settings =
  temp_folder :: string
  thumb_quality :: int
  max_thumb_size :: nat

text \<open>
  Pillow and the operating system as seen by \<^verbatim>\<open>optimize_thumbnail\<close>:
  \<^item> \<open>makedirs_ok p\<close>: \<^verbatim>\<open>os.makedirs(os.path.dirname(p), exist_ok=True)\<close> does not raise;
  \<^item> \<open>image_open p\<close>: \<^verbatim>\<open>Image.open(p)\<close>, the conversion to RGB and
    \<^verbatim>\<open>img.thumbnail\<close>; \<open>None\<close> when one of them raises, otherwise the encoder
    of the resulting image: \<open>save q\<close> is the size in bytes of the JPEG that
    \<^verbatim>\<open>img.save(..., quality=q, optimize=True, progressive=True)\<close> writes, or
    \<open>None\<close> when that call raises;
  \<^item> \<open>rm_ok\<close>: see \<open>try_remove\<close>.
\<close>

record pil_env =
  makedirs_ok :: "string \<Rightarrow> bool"
  image_open :: "string \<Rightarrow> (int \<Rightarrow> nat option) option"
  rm_ok :: "string \<Rightarrow> bool"

text \<open>
  The compression loop of lines 47--54:
  \<^verbatim>\<open>while os.path.getsize(output_path) > settings.max_thumb_size and current_quality > 5:
    current_quality -= 5
    img.save(output_path, 'JPEG', quality=current_quality, ...)\<close>
  \<open>sz\<close> is the size of the file as the last save left it. The result is the quality
  and the size the loop stops at, or \<open>None\<close> when a save raised.
\<close>

function reduce_quality :: "(int \<Rightarrow> nat option) \<Rightarrow> nat \<Rightarrow> int \<Rightarrow> nat \<Rightarrow> (int \<times> nat) option" where
  "reduce_quality save cap q sz =
     (if sz > cap \<and> q > 5
      then (case save (q - 5) of
              None \<Rightarrow> None
            | Some sz' \<Rightarrow> reduce_quality save cap (q - 5) sz')
      else Some (q, sz))"
  by pat_completeness auto
termination
  by (relation "measure (\<lambda>(save, cap, q, sz). nat q)") auto

text \<open>
  The exception handler of lines 59--66: remove the output file if it is there, return
  \<^verbatim>\<open>None\<close>.
\<close>

definition optimize_failed :: "'a pil_env_scheme \<Rightarrow> fs \<Rightarrow> string \<Rightarrow> string option \<times> fs" where
  "optimize_failed env f out = (None, try_remove (rm_ok env) f out)"

text \<open>
  \<^verbatim>\<open>optimize_thumbnail(image_path, output_path=None)\<close>. The result is the returned
  path (\<^verbatim>\<open>None\<close> on failure) and the file system it leaves.
\<close>

definition optimize_thumbnail ::
  "settings \<Rightarrow> 'a pil_env_scheme \<Rightarrow> fs \<Rightarrow> string \<Rightarrow> string option \<Rightarrow> string option \<times> fs" where
  "optimize_thumbnail cfg env f image_path output_path =
     (let out = (case output_path of
                   None \<Rightarrow> path_join (temp_folder cfg) ''thumb_temp.jpg''
                 | Some p \<Rightarrow> if p = [] then path_join (temp_folder cfg) ''thumb_temp.jpg'' else p)
      in if \<not> makedirs_ok env out then optimize_failed env f out
         else case image_open env image_path of
           None \<Rightarrow> optimize_failed env f out
         | Some save \<Rightarrow>
             (case save (thumb_quality cfg) of
                None \<Rightarrow> optimize_failed env f out
              | Some sz \<Rightarrow>
                  (let f1 = f(out \<mapsto> regular_file sz)
                   in if getsize f1 out > max_thumb_size cfg
                      then (case reduce_quality save (max_thumb_size cfg) (thumb_quality cfg) sz of
                              None \<Rightarrow> optimize_failed env f1 out
                            | Some (q, sz') \<Rightarrow> (Some out, f1(out \<mapsto> regular_file sz')))
                      else (Some out, f1))))"


subsection \<open>\<^verbatim>\<open>prepare_thumbnail\<close>\<close>

text \<open>A library call either returns a value or raises an exception with a message.\<close>

datatype 'a outcome = Returns 'a | Raises string

text \<open>
  A download through one of the clients (\<^verbatim>\<open>download_media\<close>,
  \<^verbatim>\<open>download_to_drive\<close>): the file it leaves on disk, if any, with its size, and
  what the call answers: the path (or \<^verbatim>\<open>None\<close>), or an exception.
\<close>

record download =
  leaves :: "(string \<times> nat) option"
  answer :: "string option outcome"

definition after_download :: "fs \<Rightarrow> download \<Rightarrow> fs" where
  "after_download f d = (case leaves d of None \<Rightarrow> f | Some (p, n) \<Rightarrow> f(p \<mapsto> regular_file n))"

record thumb_env = pil_env +
  temp_makedirs_ok :: bool
  urandom_hex :: string
  download_media :: "string \<Rightarrow> string \<Rightarrow> download"

text \<open>
  \<^verbatim>\<open>prepare_thumbnail(client, thumb_id)\<close>: download to a random name under the
  temporary folder, optimise, remove the download, return the optimised path. Every
  exception ends in \<^verbatim>\<open>return None\<close>.
\<close>

definition prepare_thumbnail :: "settings \<Rightarrow> thumb_env \<Rightarrow> fs \<Rightarrow> string \<Rightarrow> string option \<times> fs" where
  "prepare_thumbnail cfg env f thumb_id =
     (if \<not> temp_makedirs_ok env then (None, f)
      else
        (let temp_path = path_join (temp_folder cfg) (''thumb_download_'' @ urandom_hex env @ ''.jpg'');
             d = download_media env thumb_id temp_path;
             f1 = after_download f d
         in case answer d of
              Raises e \<Rightarrow> (None, f1)
            | Returns None \<Rightarrow> (None, f1)
            | Returns (Some p) \<Rightarrow>
                if p = [] then (None, f1)
                else (let (optimized, f2) = optimize_thumbnail cfg env f1 p None
                      in (optimized, try_remove (rm_ok env) f2 p))))"

section \<open>\<^verbatim>\<open>handlers/callback_handlers.py\<close>: scheduling, firing, cancelling\<close>

subsection \<open>Python values and session dictionaries\<close>

datatype pyval = PNone | PBool bool | PInt int | PStr string

type_synonym pydict = "string \<rightharpoonup> pyval"

text \<open>Truth value of an object, \<^verbatim>\<open>d.get(k)\<close>, and \<^verbatim>\<open>str(v)\<close>.\<close>

fun truthy :: "pyval \<Rightarrow> bool" where
  "truthy PNone = False"
| "truthy (PBool b) = b"
| "truthy (PInt i) = (i \<noteq> 0)"
| "truthy (PStr s) = (s \<noteq> [])"

definition dget :: "pydict \<Rightarrow> string \<Rightarrow> pyval" where
  "dget d k = (case d k of None \<Rightarrow> PNone | Some v \<Rightarrow> v)"

text \<open>Decimal notation, as \<^verbatim>\<open>str\<close> and f-strings print an integer.\<close>

definition digit_char :: "nat \<Rightarrow> char" where
  "digit_char d = ''0123456789'' ! d"

fun decimal :: "nat \<Rightarrow> string" where
  "decimal n = (if 10 \<le> n then decimal (n div 10) @ [digit_char (n mod 10)] else [digit_char n])"

declare decimal.simps [simp del]

definition py_int_str :: "int \<Rightarrow> string" where
  "py_int_str i = (if 0 \<le> i then decimal (nat i) else CHR ''-'' # decimal (nat (- i)))"

fun py_str :: "pyval \<Rightarrow> string" where
  "py_str PNone = ''None''"
| "py_str (PBool b) = (if b then ''True'' else ''False'')"
| "py_str (PInt i) = py_int_str i"
| "py_str (PStr s) = s"

text \<open>The conversation states the modelled handlers return.\<close>

datatype conv_state = MAIN_MENU | SCHEDULE_SEND | SCHEDULE_SELECT_CHANNEL | WAITING_PUBLICATION_CONTENT

text \<open>
  \<^verbatim>\<open>context.user_data\<close>: the keys the modelled handlers read or write; \<open>None\<close>
  is an absent key.
\<close>

record user_data =
  schedule_day :: "string option"
  posts :: "pydict list option"
  current_scheduled_post :: "pydict option"
  selected_channel :: "pydict option"
  auto_destruction_time :: "int option"
  thumbnail_prompt_message_id :: "nat option"
  original_file_message_id :: "nat option"

definition cleared :: user_data where
  "cleared = \<lparr>schedule_day = None, posts = None, current_scheduled_post = None,
     selected_channel = None, auto_destruction_time = None,
     thumbnail_prompt_message_id = None, original_file_message_id = None\<rparr>"

subsection \<open>Dates and time zones\<close>

text \<open>
  An aware \<^verbatim>\<open>datetime\<close>: its wall-clock reading, in microseconds since the epoch
  of the calendar, and the UTC offset of its \<^verbatim>\<open>tzinfo\<close>, in microseconds. A
  \<^verbatim>\<open>pytz\<close> time zone gives the offset in force at a UTC instant.
\<close>

record aware =
  wall :: int
  utcoff :: int

type_synonym tzinfo = "int \<Rightarrow> int"

definition us_per_day :: int where
  "us_per_day = 86400000000"

text \<open>\<^verbatim>\<open>datetime.now(tz)\<close> at the UTC instant \<open>u\<close>.\<close>

definition datetime_now :: "tzinfo \<Rightarrow> int \<Rightarrow> aware" where
  "datetime_now tz u = \<lparr>wall = u + tz u, utcoff = tz u\<rparr>"

text \<open>
  \<^verbatim>\<open>dt.replace(hour=h, minute=m, second=0, microsecond=0)\<close> keeps the date and the
  \<^verbatim>\<open>tzinfo\<close>; \<^verbatim>\<open>dt + timedelta(days=n)\<close> moves the wall clock and keeps the
  \<^verbatim>\<open>tzinfo\<close>.
\<close>

definition replace_time :: "aware \<Rightarrow> int \<Rightarrow> int \<Rightarrow> aware" where
  "replace_time dt h m =
     dt\<lparr>wall := (wall dt div us_per_day) * us_per_day + h * 3600000000 + m * 60000000\<rparr>"

definition plus_days :: "aware \<Rightarrow> int \<Rightarrow> aware" where
  "plus_days dt n = dt\<lparr>wall := wall dt + n * us_per_day\<rparr>"

text \<open>The UTC instant of an aware datetime, and the comparison \<^verbatim>\<open><=\<close> of two of them.\<close>

definition instant :: "aware \<Rightarrow> int" where
  "instant dt = wall dt - utcoff dt"

definition dt_le :: "aware \<Rightarrow> aware \<Rightarrow> bool" where
  "dt_le a b = (instant a \<le> instant b)"

text \<open>
  \<^verbatim>\<open>dt.strftime('%Y-%m-%d %H:%M:%S')\<close> prints the wall clock to the second and drops
  the offset; the text is represented by the number of wall-clock seconds it denotes.
  \<^verbatim>\<open>datetime.strptime(s, '%Y-%m-%d %H:%M:%S')\<close> reads it back as a naive datetime.
\<close>

definition strftime_seconds :: "aware \<Rightarrow> int" where
  "strftime_seconds dt = wall dt div 1000000"

definition strptime_seconds :: "int \<Rightarrow> int" where
  "strptime_seconds s = s * 1000000"

text \<open>
  \<^verbatim>\<open>naive.replace(tzinfo=pytz.UTC).astimezone(tz)\<close>: the naive reading is taken as a
  UTC instant and shown in the zone.
\<close>

definition utc_astimezone :: "tzinfo \<Rightarrow> int \<Rightarrow> aware" where
  "utc_astimezone tz naive = \<lparr>wall = naive + tz naive, utcoff = tz naive\<rparr>"

text \<open>
  Lines 1857--1858 of \<^verbatim>\<open>planifier_post\<close> (and 1921, 1981--1982 of
  \<^verbatim>\<open>show_scheduled_post\<close>): the local time shown for a stored
  \<^verbatim>\<open>scheduled_time\<close>.
\<close>

definition planifier_local_time :: "tzinfo \<Rightarrow> int \<Rightarrow> aware" where
  "planifier_local_time tz scheduled = utc_astimezone tz (strptime_seconds scheduled)"

subsection \<open>The store, the scheduler and the environment\<close>

text \<open>
  A row of the table \<^verbatim>\<open>posts\<close> as \<^verbatim>\<open>handle_schedule_time\<close> writes it:
  \<^verbatim>\<open>INSERT INTO posts (channel_id, post_type, content, caption, scheduled_time)\<close>.
  The table has no column for a state or a failure reason.
\<close>

record post_row =
  row_id :: nat
  row_channel_id :: pyval
  row_type :: pyval
  row_content :: pyval
  row_caption :: pyval
  scheduled_time :: int

text \<open>
  A job of \<^verbatim>\<open>scheduler_manager.scheduler\<close>: the date trigger and the post id that
  the closure \<^verbatim>\<open>send_post_job\<close> captured. The job store is keyed by the job id.
\<close>

record sched_job =
  run_date :: aware
  job_post :: nat

type_synonym job_store = "(string \<times> sched_job) list"

text \<open>\<^verbatim>\<open>add_job(..., id=job_id, replace_existing=True)\<close>.\<close>

definition add_job :: "job_store \<Rightarrow> string \<Rightarrow> sched_job \<Rightarrow> job_store" where
  "add_job js jid j = filter (\<lambda>kv. fst kv \<noteq> jid) js @ [(jid, j)]"

definition remove_job :: "job_store \<Rightarrow> string \<Rightarrow> job_store" where
  "remove_job js jid = filter (\<lambda>kv. fst kv \<noteq> jid) js"

text \<open>A job of the application's \<^verbatim>\<open>job_queue\<close> (python-telegram-bot).\<close>

record queue_job =
  job_name :: string
  job_chat :: pyval
  job_message_id :: nat
  fire_at :: int

text \<open>
  The messages the handlers send to the user (\<^verbatim>\<open>reply_text\<close>,
  \<^verbatim>\<open>safe_edit_callback_message\<close>), by call site: scheduling and cancelling,
  sending now, content intake, thumbnail processing.
\<close>

datatype reply =
    R_select_day_first
  | R_no_content
  | R_bad_format
  | R_bad_hour
  | R_past_time
  | R_scheduled nat
  | R_schedule_error
  | R_schedule_exception
  | R_none_selected
  | R_cancelled
  | R_cancel_error
  | R_nothing_to_send
  | R_thumbnail_not_applied
  | R_sent nat
  | R_send_error
  | R_no_channel_selected
  | R_limit_reached
  | R_photo_unavailable
  | R_photo_error
  | R_video_unavailable
  | R_video_error
  | R_video_missing
  | R_video_empty
  | R_unsupported
  | R_intake_error
  | E_invalid_post
  | E_channel_unknown
  | E_no_thumbnail
  | E_validating
  | E_local_absent
  | E_local_not_file
  | E_local_empty
  | E_local_unreadable
  | E_downloading
  | E_fetch_failed
  | E_download_error
  | E_file_missing
  | E_file_empty
  | E_uploading
  | E_applied
  | E_processing_error

text \<open>
  The transport a download or a send was asked of: the Bot API (\<^verbatim>\<open>context.bot\<close>),
  or an advanced client by its type.
\<close>

datatype backend = BotAPI | Advanced string

text \<open>
  The state the handlers work on: the session, the table \<^verbatim>\<open>posts\<close>, the two job
  stores, the disk, and what has been observed of the handlers from outside: the messages
  to the user, the error log, the calls of the dispatcher, the messages delivered to a
  channel (chat and message id), and the transports asked to download or to send a file, in
  the order they were asked.
\<close>

record world =
  user_data :: user_data
  rows :: "post_row list"
  last_rowid :: nat
  jobs :: job_store
  job_queue :: "queue_job list"
  replies :: "reply list"
  errors :: "string list"
  dispatched :: "nat list"
  delivered :: "(pyval \<times> nat) list"
  files :: fs
  attempts :: "backend list"

text \<open>
  Every handler talks to the user through Telegram: \<open>reply_ok r\<close> says that sending
  the message \<open>r\<close> does not raise.
\<close>

record telegram_env =
  reply_ok :: "reply \<Rightarrow> bool"

text \<open>
  What \<^verbatim>\<open>get_scheduler_manager\<close> hands out: the manager of the running
  application, or the throw-away \<^verbatim>\<open>SchedulerManager("UTC")\<close> of its third branch,
  whose jobs nobody holds.
\<close>

datatype sched_ref = Running | Temporary

text \<open>
  The environment of the scheduling handlers:
  \<^item> \<open>py_int\<close>: Python's \<^verbatim>\<open>int(s)\<close>, \<open>None\<close> for \<^verbatim>\<open>ValueError\<close>;
  \<^item> \<open>user_timezone\<close>: \<^verbatim>\<open>db_manager.get_user_timezone(user_id)\<close>;
  \<^item> \<open>pytz_timezone\<close>: \<^verbatim>\<open>pytz.timezone(name)\<close>, \<open>None\<close> when it raises;
  \<^item> \<open>utc_now\<close>: the clock, in microseconds;
  \<^item> the three tests of \<^verbatim>\<open>get_scheduler_manager\<close>;
  \<^item> \<open>insert_ok\<close>, \<open>delete_ok\<close>: the SQL statement does not raise;
  \<^item> \<open>send_scheduled_file\<close>: the dispatcher of \<^verbatim>\<open>utils/scheduler_utils.py\<close>,
    which is not part of the sources at hand: for a post id, what it does to the table and
    to the job store, and whether it returns or raises;
  \<^item> \<open>has_job_queue\<close> and \<open>queue_remove_job\<close>: the application's job queue and its
    answer to \<^verbatim>\<open>job_queue.remove_job(job_id)\<close>.
\<close>

record sched_env = telegram_env +
  py_int :: "string \<Rightarrow> int option"
  user_timezone :: "string option"
  pytz_timezone :: "string \<Rightarrow> tzinfo option"
  utc_now :: int
  global_scheduler_set :: bool
  bot_module_scheduler :: bool
  temporary_scheduler_ok :: bool
  insert_ok :: "pydict \<Rightarrow> bool"
  delete_ok :: bool
  send_scheduled_file :: "nat \<Rightarrow> post_row list \<times> job_store \<Rightarrow> unit outcome \<times> (post_row list \<times> job_store)"
  has_job_queue :: bool
  queue_remove_job :: "string \<Rightarrow> queue_job list \<Rightarrow> queue_job list outcome"

definition get_scheduler_manager :: "sched_env \<Rightarrow> sched_ref option" where
  "get_scheduler_manager env =
     (if global_scheduler_set env then Some Running
      else if bot_module_scheduler env then Some Running
      else if temporary_scheduler_ok env then Some Temporary
      else None)"

definition log_error :: "string \<Rightarrow> world \<Rightarrow> world" where
  "log_error e w = w\<lparr>errors := errors w @ [e]\<rparr>"

text \<open>\<^verbatim>\<open>await update.message.reply_text(...)\<close>: \<open>None\<close> when the call raises.\<close>

definition send_reply :: "'a telegram_env_scheme \<Rightarrow> reply \<Rightarrow> world \<Rightarrow> world option" where
  "send_reply env r w = (if reply_ok env r then Some (w\<lparr>replies := replies w @ [r]\<rparr>) else None)"

definition reply_and_return ::
  "'a telegram_env_scheme \<Rightarrow> reply \<Rightarrow> conv_state \<Rightarrow> world \<Rightarrow> conv_state outcome \<times> world" where
  "reply_and_return env r st w =
     (case send_reply env r w of
        None \<Rightarrow> (Raises ''reply_text'', w)
      | Some w' \<Rightarrow> (Returns st, w'))"

subsection \<open>\<^verbatim>\<open>handle_schedule_time\<close>\<close>

text \<open>\<^verbatim>\<open>str.strip()\<close> and \<^verbatim>\<open>str.split(':')\<close> on ASCII text.\<close>

definition is_space :: "char \<Rightarrow> bool" where
  "is_space c = (c \<in> set [CHR '' '', CHR 0x09, CHR 0x0A, CHR 0x0B, CHR 0x0C, CHR 0x0D])"

definition strip :: "string \<Rightarrow> string" where
  "strip s = rev (dropWhile is_space (rev (dropWhile is_space s)))"

fun split_colon :: "string \<Rightarrow> string list" where
  "split_colon [] = [] # []"
| "split_colon (c # cs) =
     (if c = CHR '':'' then [] # split_colon cs
      else (case split_colon cs of
              [] \<Rightarrow> [c] # []
            | p # ps \<Rightarrow> (c # p) # ps))"

text \<open>
  Lines 932--939: \<^verbatim>\<open>hour, minute = map(int, time_text.split(':'))\<close> when the text has
  a colon, \<^verbatim>\<open>hour = int(time_text); minute = 0\<close> otherwise; \<open>None\<close> is the
  \<^verbatim>\<open>ValueError\<close> of \<^verbatim>\<open>int\<close> or of the unpacking.
\<close>

definition parse_hour_minute :: "(string \<Rightarrow> int option) \<Rightarrow> string \<Rightarrow> (int \<times> int) option" where
  "parse_hour_minute to_int t =
     (if CHR '':'' \<in> set t
      then (case map to_int (split_colon t) of
              [Some h, Some m] \<Rightarrow> Some (h, m)
            | _ \<Rightarrow> None)
      else (case to_int t of
              None \<Rightarrow> None
            | Some h \<Rightarrow> Some (h, 0)))"

text \<open>Lines 964--966: the stored zone name, \<^verbatim>\<open>'Europe/Paris'\<close> when there is none.\<close>

definition zone_name :: "sched_env \<Rightarrow> string" where
  "zone_name env =
     (case user_timezone env of
        None \<Rightarrow> ''Europe/Paris''
      | Some z \<Rightarrow> if z = [] then ''Europe/Paris'' else z)"

text \<open>Lines 970--981: \<^verbatim>\<open>target_date_local\<close>.\<close>

definition target_date_local :: "tzinfo \<Rightarrow> int \<Rightarrow> string \<Rightarrow> int \<Rightarrow> int \<Rightarrow> aware" where
  "target_date_local tz u day h m =
     (let target = replace_time (datetime_now tz u) h m
      in if day = ''tomorrow'' then plus_days target 1 else target)"

text \<open>
  The body of the loop \<^verbatim>\<open>for post in posts\<close> (lines 1004--1063): insert the row,
  build the job id from \<^verbatim>\<open>cursor.lastrowid\<close>, add the job. The stored
  \<^verbatim>\<open>scheduled_time\<close> is \<^verbatim>\<open>target_date_local.strftime(...)\<close>; the job's
  \<^verbatim>\<open>run_date\<close> is \<^verbatim>\<open>target_date_local\<close> itself. An exception is logged and
  the loop goes on.
\<close>

definition schedule_one ::
  "sched_env \<Rightarrow> aware \<Rightarrow> pyval \<Rightarrow> sched_ref option \<Rightarrow> pydict \<Rightarrow> nat \<times> world \<Rightarrow> nat \<times> world" where
  "schedule_one env target channel_id mgr post acc =
     (let count = fst acc; w = snd acc
      in case post ''type'' of
           None \<Rightarrow> (count, log_error ''KeyError: type'' w)
         | Some ty \<Rightarrow>
            (case post ''content'' of
               None \<Rightarrow> (count, log_error ''KeyError: content'' w)
             | Some co \<Rightarrow>
                if \<not> insert_ok env post then (count, log_error ''sqlite3.Error'' w)
                else
                  (let pid = Suc (last_rowid w);
                       row = \<lparr>row_id = pid, row_channel_id = channel_id, row_type = ty,
                              row_content = co, row_caption = dget post ''caption'',
                              scheduled_time = strftime_seconds target\<rparr>;
                       w1 = w\<lparr>rows := rows w @ [row], last_rowid := pid\<rparr>;
                       job_id = ''post_'' @ decimal pid
                   in case mgr of
                        None \<Rightarrow> (count, log_error ''Scheduler manager introuvable'' w1)
                      | Some Temporary \<Rightarrow> (Suc count, w1)
                      | Some Running \<Rightarrow>
                          (Suc count,
                           w1\<lparr>jobs := add_job (jobs w1) job_id \<lparr>run_date = target, job_post = pid\<rparr>\<rparr>))))"

fun schedule_posts ::
  "sched_env \<Rightarrow> aware \<Rightarrow> pyval \<Rightarrow> sched_ref option \<Rightarrow> pydict list \<Rightarrow> nat \<times> world \<Rightarrow> nat \<times> world" where
  "schedule_posts env target channel_id mgr [] acc = acc"
| "schedule_posts env target channel_id mgr (post # ps) acc =
     schedule_posts env target channel_id mgr ps (schedule_one env target channel_id mgr post acc)"

text \<open>
  The \<^verbatim>\<open>try\<close> block of \<^verbatim>\<open>handle_schedule_time\<close>. \<open>text\<close> is
  \<^verbatim>\<open>update.message.text\<close>. The result is the returned conversation state, or the
  exception that reaches the handler's \<^verbatim>\<open>except\<close>.
\<close>

definition schedule_body ::
  "sched_env \<Rightarrow> string option \<Rightarrow> world \<Rightarrow> conv_state outcome \<times> world" where
  "schedule_body env text w =
     (case text of
        None \<Rightarrow> (Returns SCHEDULE_SEND, w)
      | Some t \<Rightarrow>
        if t = [] then (Returns SCHEDULE_SEND, w)
        else
          (case schedule_day (user_data w) of
             None \<Rightarrow> reply_and_return env R_select_day_first SCHEDULE_SEND w
           | Some day \<Rightarrow>
             (let ps = (case posts (user_data w) of None \<Rightarrow> [] | Some l \<Rightarrow> l)
              in if ps = [] \<and> current_scheduled_post (user_data w) = None
                 then reply_and_return env R_no_content MAIN_MENU w
                 else
                  (case parse_hour_minute (py_int env) (strip t) of
                     None \<Rightarrow> reply_and_return env R_bad_format SCHEDULE_SEND w
                   | Some (hour, minute) \<Rightarrow>
                     if \<not> (0 \<le> hour \<and> hour \<le> 23) \<or> \<not> (0 \<le> minute \<and> minute \<le> 59)
                     then reply_and_return env R_bad_hour SCHEDULE_SEND w
                     else
                      (case pytz_timezone env (zone_name env) of
                         None \<Rightarrow> (Raises ''UnknownTimeZoneError'', w)
                       | Some tz \<Rightarrow>
                         (let local_now = datetime_now tz (utc_now env);
                              target = target_date_local tz (utc_now env) day hour minute
                          in if dt_le target local_now
                             then reply_and_return env R_past_time SCHEDULE_SEND w
                             else
                              (let channel_id =
                                     (case selected_channel (user_data w) of
                                        None \<Rightarrow> PNone
                                      | Some c \<Rightarrow> dget c ''id'');
                                   acc =
                                     (if current_scheduled_post (user_data w) \<noteq> None then (0, w)
                                      else schedule_posts env target channel_id
                                             (get_scheduler_manager env) ps (0, w));
                                   confirmation =
                                     (if fst acc > 0 then R_scheduled (fst acc) else R_schedule_error)
                               in case send_reply env confirmation (snd acc) of
                                    None \<Rightarrow> (Raises ''reply_text'', snd acc)
                                  | Some w2 \<Rightarrow> (Returns MAIN_MENU, w2\<lparr>user_data := cleared\<rparr>))))))))"

text \<open>
  The handler with its \<^verbatim>\<open>except Exception\<close>: log, try to tell the user (a second
  failure is swallowed), return \<^verbatim>\<open>MAIN_MENU\<close>.
\<close>

definition handle_schedule_time ::
  "sched_env \<Rightarrow> string option \<Rightarrow> world \<Rightarrow> conv_state \<times> world" where
  "handle_schedule_time env text w =
     (case schedule_body env text w of
        (Returns st, w') \<Rightarrow> (st, w')
      | (Raises e, w') \<Rightarrow>
          (let w1 = log_error e w'
           in case send_reply env R_schedule_exception w1 of
                None \<Rightarrow> (MAIN_MENU, w1)
              | Some w2 \<Rightarrow> (MAIN_MENU, w2)))"

subsection \<open>\<^verbatim>\<open>send_post_job\<close> and the trigger\<close>

text \<open>
  The wrapper of lines 1024--1046 calls \<^verbatim>\<open>send_scheduled_file({"id": post_id}, ...)\<close>
  on a fresh event loop; \<open>dispatched\<close> records the call. Whatever the dispatcher
  raises is caught and written to the log; the wrapper touches neither the table nor the
  job store.
\<close>

definition send_post_job :: "sched_env \<Rightarrow> nat \<Rightarrow> world \<Rightarrow> world" where
  "send_post_job env post_id w =
     (let w1 = w\<lparr>dispatched := dispatched w @ [post_id]\<rparr>
      in case send_scheduled_file env post_id (rows w1, jobs w1) of
           (Returns u, (r, j)) \<Rightarrow> w1\<lparr>rows := r, jobs := j\<rparr>
         | (Raises e, (r, j)) \<Rightarrow>
             log_error (''Erreur dans le job '' @ decimal post_id @ '': '' @ e)
               (w1\<lparr>rows := r, jobs := j\<rparr>))"

text \<open>
  The trigger time of the job \<open>jid\<close> arrives: a job with a date trigger that is still in
  the store leaves the store and its function runs; a job that is not in the store does
  not run.
\<close>

definition trigger_arrives :: "sched_env \<Rightarrow> string \<Rightarrow> world \<Rightarrow> world" where
  "trigger_arrives env jid w =
     (case map_of (jobs w) jid of
        None \<Rightarrow> w
      | Some j \<Rightarrow> send_post_job env (job_post j) (w\<lparr>jobs := remove_job (jobs w) jid\<rparr>))"

subsection \<open>\<^verbatim>\<open>handle_confirm_cancel\<close>\<close>

text \<open>
  Lines 1216--1223: the job is looked for in \<^verbatim>\<open>context.application.job_queue\<close>, not
  in \<^verbatim>\<open>scheduler_manager.scheduler\<close> where \<^verbatim>\<open>handle_schedule_time\<close> put it;
  whatever the job queue answers, an exception is swallowed.
\<close>

definition cancel_in_job_queue :: "sched_env \<Rightarrow> string \<Rightarrow> world \<Rightarrow> world" where
  "cancel_in_job_queue env jid w =
     (if has_job_queue env
      then (case queue_remove_job env jid (job_queue w) of
              Returns q \<Rightarrow> w\<lparr>job_queue := q\<rparr>
            | Raises e \<Rightarrow> w)
      else w)"

definition cancel_body :: "sched_env \<Rightarrow> world \<Rightarrow> conv_state outcome \<times> world" where
  "cancel_body env w =
     (case current_scheduled_post (user_data w) of
        None \<Rightarrow> reply_and_return env R_none_selected MAIN_MENU w
      | Some post \<Rightarrow>
         (case post ''id'' of
            None \<Rightarrow> (Raises ''KeyError: id'', w)
          | Some pid \<Rightarrow>
             if \<not> delete_ok env then (Raises ''sqlite3.Error'', w)
             else
               (let w1 = w\<lparr>rows := filter (\<lambda>r. PInt (int (row_id r)) \<noteq> pid) (rows w)\<rparr>;
                    w2 = cancel_in_job_queue env (''post_'' @ py_str pid) w1
                in case send_reply env R_cancelled w2 of
                     None \<Rightarrow> (Raises ''reply_text'', w2)
                   | Some w3 \<Rightarrow>
                       (Returns MAIN_MENU,
                        w3\<lparr>user_data := (user_data w3)\<lparr>current_scheduled_post := None\<rparr>\<rparr>))))"

text \<open>
  The handler: its \<^verbatim>\<open>except\<close> replies without protection, so a failing reply
  leaves the handler as an exception.
\<close>

definition handle_confirm_cancel :: "sched_env \<Rightarrow> world \<Rightarrow> conv_state outcome \<times> world" where
  "handle_confirm_cancel env w =
     (case cancel_body env w of
        (Returns st, w') \<Rightarrow> (Returns st, w')
      | (Raises e, w') \<Rightarrow> reply_and_return env R_cancel_error MAIN_MENU (log_error e w'))"

section \<open>\<^verbatim>\<open>handlers/callback_handlers.py\<close>: sending now and auto-destruction\<close>

text \<open>
  The environment of \<^verbatim>\<open>send_post_now\<close>:
  \<^item> \<open>bot_send channel post\<close>: \<^verbatim>\<open>context.bot.send_photo\<close>,
    \<^verbatim>\<open>send_video\<close>, \<^verbatim>\<open>send_document\<close> or \<^verbatim>\<open>send_message\<close> for
    the post, with the caption the handler has built: the id of the message sent, a falsy
    answer, or an exception;
  \<^item> \<open>application_job_queue\<close>: the test
    \<^verbatim>\<open>hasattr(context, 'application') and hasattr(context.application, 'job_queue')\<close>;
  \<^item> \<open>run_once_parameters\<close>: the names of the parameters that
    \<^verbatim>\<open>JobQueue.run_once\<close> of the installed python-telegram-bot declares. A call
    with any other keyword raises \<^verbatim>\<open>TypeError\<close> before anything is queued;
  \<^item> \<open>run_once_ok name\<close>: with keywords that are accepted,
    \<^verbatim>\<open>job_queue.run_once(...)\<close> takes the job of that name (it raises otherwise,
    for instance when \<^verbatim>\<open>job_queue\<close> is \<^verbatim>\<open>None\<close>);
  \<^item> \<open>now_seconds\<close>: the clock at the moment of the call, in seconds.
\<close>

record send_env = telegram_env +
  bot_send :: "pyval \<Rightarrow> pydict \<Rightarrow> nat option outcome"
  application_job_queue :: bool
  run_once_parameters :: "string list"
  run_once_ok :: "string \<Rightarrow> bool"
  now_seconds :: int

subsection \<open>\<^verbatim>\<open>schedule_auto_destruction\<close>\<close>

text \<open>
  Lines 125--130 call \<^verbatim>\<open>run_once(delete_message_callback,
  when=timedelta(seconds=t), name=f"auto_delete_{message_id}", context=job_context)\<close>:
  one positional argument and the three keywords \<^verbatim>\<open>when\<close>,
  \<^verbatim>\<open>name\<close> and \<^verbatim>\<open>context\<close>.
\<close>

definition run_once_keywords :: "string list" where
  "run_once_keywords = [''when'', ''name'', ''context'']"

text \<open>
  When the library accepts the call, one job is put in the application's job queue, due
  \<open>t\<close> seconds from now, that carries the chat and the message id. Without a job
  queue, or when \<^verbatim>\<open>run_once\<close> raises (a keyword it does not declare, or any
  other failure), the \<^verbatim>\<open>except Exception\<close> of line 136 logs a warning, the
  function returns \<^verbatim>\<open>False\<close> and nothing is queued.
\<close>

definition destruct_job :: "send_env \<Rightarrow> pyval \<Rightarrow> nat \<Rightarrow> int \<Rightarrow> queue_job" where
  "destruct_job env chat_id message_id t =
     \<lparr>job_name = ''auto_delete_'' @ decimal message_id, job_chat = chat_id,
      job_message_id = message_id, fire_at = now_seconds env + t\<rparr>"

definition schedule_auto_destruction ::
  "send_env \<Rightarrow> pyval \<Rightarrow> nat \<Rightarrow> int \<Rightarrow> world \<Rightarrow> bool \<times> world" where
  "schedule_auto_destruction env chat_id message_id t w =
     (if application_job_queue env
      then (if list_all (\<lambda>k. k \<in> set (run_once_parameters env)) run_once_keywords
               \<and> run_once_ok env (''auto_delete_'' @ decimal message_id)
            then (True, w\<lparr>job_queue := job_queue w @ [destruct_job env chat_id message_id t]\<rparr>)
            else (False, w))
      else (False, w))"

subsection \<open>\<^verbatim>\<open>send_post_now\<close>\<close>

text \<open>What one turn of the loop \<^verbatim>\<open>for post_index, post in enumerate(posts)\<close> ends in.\<close>

datatype loop_step = Continue | Finished | Failed string

text \<open>
  Lines 2572--2607 stand inside the loop: empty the session's post list, forget the
  selected channel, confirm with the count of successes, \<^verbatim>\<open>return MAIN_MENU\<close>.
\<close>

definition confirm_and_return :: "send_env \<Rightarrow> nat \<times> world \<Rightarrow> loop_step \<times> (nat \<times> world)" where
  "confirm_and_return env acc =
     (let w1 = (snd acc)\<lparr>user_data := (user_data (snd acc))\<lparr>posts := Some [], selected_channel := None\<rparr>\<rparr>
      in case send_reply env (R_sent (fst acc)) w1 of
           None \<Rightarrow> (Failed ''reply_text'', (fst acc, w1))
         | Some w2 \<Rightarrow> (Finished, (fst acc, w2)))"

text \<open>
  The three identical \<^verbatim>\<open>try\<close> blocks (lines 2421--2454, 2518--2551, 2555--2570):
  send with \<^verbatim>\<open>context.bot.send_photo\<close>, \<^verbatim>\<open>send_video\<close>,
  \<^verbatim>\<open>send_document\<close> or \<^verbatim>\<open>send_message\<close>, that is through the Bot
  API and by the file id in \<^verbatim>\<open>content\<close>; the post's
  \<^verbatim>\<open>file_size\<close> is not read and \<^verbatim>\<open>send_file_smart\<close>, imported at
  line 2370, is not called. When a message comes back, count the success and, when
  \<^verbatim>\<open>auto_destruction_time and auto_destruction_time > 0\<close>, call
  \<^verbatim>\<open>schedule_auto_destruction\<close>, whose result is ignored; an exception of the send is
  logged and the loop continues with the next post.
\<close>

definition deliver :: "send_env \<Rightarrow> pyval \<Rightarrow> pydict \<Rightarrow> nat \<times> world \<Rightarrow> loop_step \<times> (nat \<times> world)" where
  "deliver env channel post acc =
     (let w0 = (snd acc)\<lparr>attempts := attempts (snd acc) @ [BotAPI]\<rparr>
      in case bot_send env channel post of
        Raises e \<Rightarrow> (Continue, (fst acc, log_error e w0))
      | Returns None \<Rightarrow> confirm_and_return env (fst acc, w0)
      | Returns (Some mid) \<Rightarrow>
          (let w1 = w0\<lparr>delivered := delivered w0 @ [(channel, mid)]\<rparr>;
               w2 = (case auto_destruction_time (user_data w1) of
                       None \<Rightarrow> w1
                     | Some t \<Rightarrow>
                         if t \<noteq> 0 \<and> t > 0
                         then snd (schedule_auto_destruction env channel mid t w1)
                         else w1)
           in confirm_and_return env (Suc (fst acc), w2)))"

text \<open>
  The body of the loop: files with an applied thumbnail and files without a thumbnail are
  sent, a file whose thumbnail is set but not applied is skipped with a warning, a text is
  sent, any other type falls through to the confirmation.
\<close>

definition send_one :: "send_env \<Rightarrow> pyval \<Rightarrow> pydict \<Rightarrow> nat \<times> world \<Rightarrow> loop_step \<times> (nat \<times> world)" where
  "send_one env channel post acc =
     (let post_type = dget post ''type''
      in if post_type \<in> set [PStr ''photo'', PStr ''video'', PStr ''document'']
         then (if truthy (dget post ''has_custom_thumbnail'') then deliver env channel post acc
               else if truthy (dget post ''thumbnail'')
               then (case send_reply env R_thumbnail_not_applied (snd acc) of
                       None \<Rightarrow> (Failed ''reply_text'', acc)
                     | Some w1 \<Rightarrow> (Continue, (fst acc, w1)))
               else deliver env channel post acc)
         else if post_type = PStr ''text'' then deliver env channel post acc
         else confirm_and_return env acc)"

text \<open>
  The loop: it ends at the first post that does not \<^verbatim>\<open>continue\<close>; when every post
  continues, the function falls off its end and returns \<^verbatim>\<open>None\<close>.
\<close>

fun send_loop ::
  "send_env \<Rightarrow> pyval \<Rightarrow> pydict list \<Rightarrow> nat \<times> world \<Rightarrow> conv_state option outcome \<times> world" where
  "send_loop env channel [] acc = (Returns None, snd acc)"
| "send_loop env channel (post # ps) acc =
     (case send_one env channel post acc of
        (Continue, acc') \<Rightarrow> send_loop env channel ps acc'
      | (Finished, acc') \<Rightarrow> (Returns (Some MAIN_MENU), snd acc')
      | (Failed e, acc') \<Rightarrow> (Raises e, snd acc'))"

text \<open>Lines 2318--2320: a channel name without \<^verbatim>\<open>@\<close> or \<^verbatim>\<open>-100\<close> gets an \<^verbatim>\<open>@\<close>.\<close>

definition with_at :: "pyval \<Rightarrow> pyval" where
  "with_at channel =
     (case channel of
        PStr c \<Rightarrow> if take 1 c \<noteq> ''@'' \<and> take 4 c \<noteq> ''-100'' then PStr (''@'' @ c) else PStr c
      | other \<Rightarrow> other)"

text \<open>
  \<^verbatim>\<open>send_post_now(update, context, scheduled_post=None)\<close>; \<open>None\<close> stands for an
  argument that is absent or an empty dictionary. The handler's \<^verbatim>\<open>except\<close> replies
  without protection.
\<close>

definition send_now_body :: "send_env \<Rightarrow> pydict option \<Rightarrow> world \<Rightarrow> conv_state option outcome \<times> world" where
  "send_now_body env scheduled_post w =
     (case scheduled_post of
        Some sp \<Rightarrow>
          send_loop env
            (with_at (case sp ''channel'' of None \<Rightarrow> PStr ''@default_channel'' | Some c \<Rightarrow> c))
            [sp] (0, w)
      | None \<Rightarrow>
          (case (case posts (user_data w) of None \<Rightarrow> [] | Some l \<Rightarrow> l) of
             [] \<Rightarrow>
               (case send_reply env R_nothing_to_send w of
                  None \<Rightarrow> (Raises ''reply_text'', w)
                | Some w1 \<Rightarrow> (Returns (Some MAIN_MENU), w1))
           | first # others \<Rightarrow>
               (let fallback =
                      (case selected_channel (user_data w) of
                         None \<Rightarrow> PStr ''@default_channel''
                       | Some c \<Rightarrow> (case c ''username'' of
                                      None \<Rightarrow> PStr ''@default_channel''
                                    | Some u \<Rightarrow> u));
                    channel = (if truthy (dget first ''channel'') then dget first ''channel'' else fallback)
                in send_loop env (with_at channel) (first # others) (0, w))))"

definition send_post_now :: "send_env \<Rightarrow> pydict option \<Rightarrow> world \<Rightarrow> conv_state option outcome \<times> world" where
  "send_post_now env scheduled_post w =
     (case send_now_body env scheduled_post w of
        (Returns st, w') \<Rightarrow> (Returns st, w')
      | (Raises e, w') \<Rightarrow>
          (case send_reply env R_send_error (log_error e w') of
             None \<Rightarrow> (Raises ''reply_text'', log_error e w')
           | Some w2 \<Rightarrow> (Returns (Some MAIN_MENU), w2)))"

text \<open>
  \<^verbatim>\<open>delete_message_callback\<close> (lines 99--113), the callback handed to
  \<^verbatim>\<open>run_once\<close>. It is a plain \<^verbatim>\<open>def\<close>. It reads
  \<^verbatim>\<open>context_job.context\<close>; \<open>has_context\<close> says whether the argument it is
  called with has that attribute, and without it the \<^verbatim>\<open>AttributeError\<close> is
  swallowed with a warning. With it, \<^verbatim>\<open>bot.delete_message(...)\<close> is called
  without \<^verbatim>\<open>await\<close>: the method is a coroutine function, so the call builds a
  coroutine that is dropped unrun, no request goes to Telegram, and the callback logs
  its line of success all the same. In neither case is a message
  deleted.
\<close>

definition delete_message_callback :: "bool \<Rightarrow> queue_job \<Rightarrow> world \<Rightarrow> world" where
  "delete_message_callback has_context j w =
     (if has_context then w else log_error ''Erreur suppression auto'' w)"

section \<open>\<^verbatim>\<open>handlers/message_handlers.py\<close>: content intake\<close>

subsection \<open>Messages, clients and error texts\<close>

record photo_size =
  photo_id :: string
  photo_bytes :: "nat option"

record video =
  video_id :: string
  video_bytes :: "nat option"
  video_duration :: "nat option"

record document =
  document_id :: string
  document_name :: "string option"
  document_bytes :: "nat option"

record message =
  msg_text :: "string option"
  msg_photo :: "photo_size list"
  msg_video :: "video option"
  msg_document :: "document option"
  msg_caption :: "string option"

text \<open>
  The environment of the handlers that move media:
  \<^item> \<open>bot_download file_id target\<close>: \<^verbatim>\<open>context.bot.get_file(file_id)\<close> followed by
    \<^verbatim>\<open>download_to_drive(target)\<close> (an empty target lets the library choose);
  \<^item> \<open>best_client size\<close>: \<^verbatim>\<open>client_manager.get_best_client(size, "download")\<close>:
    whether \<^verbatim>\<open>client_info["client"]\<close> is a client at all, and
    \<^verbatim>\<open>client_info["type"]\<close>;
  \<^item> \<open>client_download type file_id target\<close>: \<^verbatim>\<open>client.download_media\<close>;
  \<^item> \<open>unix_time\<close>: \<^verbatim>\<open>int(time.time())\<close>; \<open>effective_user\<close>: the user's id;
  \<^item> \<open>unlink_ok\<close>: \<^verbatim>\<open>os.remove\<close> succeeds on that path;
  \<^item> \<open>show_post\<close>: \<^verbatim>\<open>_send_post_with_buttons\<close>: the id it stores under
    \<^verbatim>\<open>original_file_message_id\<close>, if any, and whether it returns (it raises when the
    reply of its own handler fails);
  \<^item> \<open>get_thumbnail\<close>: \<^verbatim>\<open>db_manager.get_thumbnail(channel, user_id)\<close>;
  \<^item> \<open>send_file_smart path thumb post\<close>: the upload of
    \<^verbatim>\<open>handlers/media_handler.py\<close>, which is not part of the sources at hand;
  \<^item> \<open>show_result_ok\<close>: the final \<^verbatim>\<open>send_photo\<close>/\<^verbatim>\<open>send_video\<close>/... of the
    thumbnail pipeline does not raise.
\<close>

datatype thumb_data = ThumbNone | ThumbId string | ThumbDict pyval pyval

record smart_result =
  success :: bool
  sent_message_id :: "nat option"
  new_file_id :: "string option"
  error_detail :: "string option"

record media_env = telegram_env +
  bot_download :: "string \<Rightarrow> string \<Rightarrow> download"
  best_client :: "nat \<Rightarrow> (bool \<times> string) outcome"
  client_download :: "string \<Rightarrow> string \<Rightarrow> string \<Rightarrow> download"
  unix_time :: nat
  effective_user :: nat
  unlink_ok :: "string \<Rightarrow> bool"
  show_post :: "pydict \<Rightarrow> nat option \<times> bool"
  get_thumbnail :: "string \<Rightarrow> nat \<Rightarrow> thumb_data"
  send_file_smart :: "string \<Rightarrow> pyval \<Rightarrow> pydict \<Rightarrow> smart_result outcome"
  show_result_ok :: bool

text \<open>\<^verbatim>\<open>str.lower()\<close> on ASCII text, and the two tests on the text of an exception.\<close>

definition lower_char :: "char \<Rightarrow> char" where
  "lower_char c = (let n = (of_char c :: nat) in if 65 \<le> n \<and> n \<le> 90 then char_of (n + 32) else c)"

definition lower :: "string \<Rightarrow> string" where
  "lower s = map lower_char s"

definition too_big :: "string \<Rightarrow> bool" where
  "too_big e = (sublist ''File is too big'' e \<or> sublist ''file is too big'' (lower e))"

definition too_big_or_expired :: "string \<Rightarrow> bool" where
  "too_big_or_expired e =
     (sublist ''File is too big'' e \<or> sublist ''file is too big'' (lower e)
      \<or> sublist ''FILE_REFERENCE_EXPIRED'' e \<or> sublist ''file reference'' (lower e))"

definition or_zero :: "nat option \<Rightarrow> nat" where
  "or_zero n = (case n of None \<Rightarrow> 0 | Some k \<Rightarrow> k)"

definition py_opt :: "string option \<Rightarrow> pyval" where
  "py_opt s = (case s of None \<Rightarrow> PNone | Some t \<Rightarrow> PStr t)"

text \<open>One download attempt: the file it leaves and its place in the order of attempts.\<close>

definition attempt :: "backend \<Rightarrow> download \<Rightarrow> world \<Rightarrow> world" where
  "attempt b d w = w\<lparr>files := after_download (files w) d, attempts := attempts w @ [b]\<rparr>"

text \<open>What a fetch ends in: a local path, or a message to the user and \<^verbatim>\<open>MAIN_MENU\<close>.\<close>

datatype fetched = Fetched "string option" | Refused reply

subsection \<open>The photo and the video branch of \<^verbatim>\<open>handle_post_content\<close>\<close>

text \<open>
  Lines 532--572. The Bot API is asked first, whatever the size; only its answer
  \<^verbatim>\<open>File is too big\<close> sends the handler to an advanced client.
\<close>

definition fetch_photo :: "media_env \<Rightarrow> photo_size \<Rightarrow> world \<Rightarrow> fetched \<times> world" where
  "fetch_photo env photo w =
     (let d = bot_download env (photo_id photo) (''downloads/photo_'' @ photo_id photo @ ''.jpg'');
          w1 = attempt BotAPI d w
      in case answer d of
           Returns local_path \<Rightarrow> (Fetched local_path, w1)
         | Raises e \<Rightarrow>
             if too_big e
             then (case best_client env (or_zero (photo_bytes photo)) of
                     Raises c \<Rightarrow> (Refused R_photo_unavailable, w1)
                   | Returns (client, client_type) \<Rightarrow>
                       if client_type = ''pyrogram'' \<or> client_type = ''telethon''
                       then (if \<not> client then (Refused R_photo_unavailable, w1)
                             else
                              (let d2 = client_download env client_type (photo_id photo)
                                          (''downloads/photo_'' @ photo_id photo @ ''_''
                                             @ decimal (unix_time env) @ ''.jpg'');
                                   w2 = attempt (Advanced client_type) d2 w1
                               in case answer d2 of
                                    Raises c \<Rightarrow> (Refused R_photo_unavailable, w2)
                                  | Returns local_path \<Rightarrow> (Fetched local_path, w2)))
                       else (Refused R_photo_unavailable, w1))
             else (Refused R_photo_error, w1))"

text \<open>
  Lines 583--658. Again the Bot API first; the fallback also answers an expired file
  reference, checks that there is a client, and refuses a download that is missing or
  empty.
\<close>

definition fetch_video :: "media_env \<Rightarrow> video \<Rightarrow> world \<Rightarrow> fetched \<times> world" where
  "fetch_video env v w =
     (let d = bot_download env (video_id v) (''downloads/video_'' @ video_id v @ ''.mp4'');
          w1 = attempt BotAPI d w
      in case answer d of
           Returns local_path \<Rightarrow> (Fetched local_path, w1)
         | Raises e \<Rightarrow>
             if too_big_or_expired e
             then (case best_client env (or_zero (video_bytes v)) of
                     Raises c \<Rightarrow> (Refused R_video_unavailable, w1)
                   | Returns (client, client_type) \<Rightarrow>
                       if \<not> client then (Refused R_video_unavailable, w1)
                       else if client_type = ''pyrogram'' \<or> client_type = ''telethon''
                       then
                         (let d2 = client_download env client_type (video_id v)
                                     (''downloads/video_'' @ decimal (effective_user env) @ ''_''
                                        @ decimal (unix_time env) @ ''.mp4'');
                              w2 = attempt (Advanced client_type) d2 w1
                          in case answer d2 of
                               Raises c \<Rightarrow> (Refused R_video_unavailable, w2)
                             | Returns None \<Rightarrow> (Refused R_video_unavailable, w2)
                             | Returns (Some p) \<Rightarrow>
                                 if p = [] \<or> \<not> path_exists (files w2) p \<or> getsize (files w2) p = 0
                                 then (Refused R_video_unavailable, w2)
                                 else (Fetched (Some p), w2))
                       else (Refused R_video_unavailable, w1))
             else (Refused R_video_error, w1))"

subsection \<open>\<^verbatim>\<open>handle_post_content\<close>\<close>

definition session_posts :: "world \<Rightarrow> pydict list" where
  "session_posts w = (case posts (user_data w) of None \<Rightarrow> [] | Some l \<Rightarrow> l)"

text \<open>
  Lines 712--723: append the post to the list, store the list, show the post.
\<close>

definition add_post :: "media_env \<Rightarrow> pydict \<Rightarrow> world \<Rightarrow> conv_state outcome \<times> world" where
  "add_post env post_data w =
     (let w1 = w\<lparr>user_data := (user_data w)\<lparr>posts := Some (session_posts w @ [post_data])\<rparr>\<rparr>;
          shown = show_post env post_data;
          w2 = (case fst shown of
                  None \<Rightarrow> w1
                | Some mid \<Rightarrow> w1\<lparr>user_data := (user_data w1)\<lparr>original_file_message_id := Some mid\<rparr>\<rparr>)
      in if snd shown then (Returns WAITING_PUBLICATION_CONTENT, w2)
         else (Raises ''reply_text'', w2))"

text \<open>
  The photo branch (lines 530--579) and the video branch (lines 580--689) with the final
  check of the downloaded video: a missing path or file is refused, an empty file is
  removed and refused.
\<close>

definition intake_photo ::
  "media_env \<Rightarrow> pydict \<Rightarrow> pyval \<Rightarrow> photo_size \<Rightarrow> world \<Rightarrow> conv_state outcome \<times> world" where
  "intake_photo env base caption photo w =
     (case fetch_photo env photo w of
        (Refused r, w1) \<Rightarrow> reply_and_return env r MAIN_MENU w1
      | (Fetched local_path, w1) \<Rightarrow>
          add_post env
            (base(''type'' \<mapsto> PStr ''photo'', ''content'' \<mapsto> PStr (photo_id photo),
                  ''caption'' \<mapsto> caption,
                  ''file_size'' \<mapsto> PInt (int (or_zero (photo_bytes photo))),
                  ''local_path'' \<mapsto> py_opt local_path)) w1)"

definition intake_video ::
  "media_env \<Rightarrow> pydict \<Rightarrow> pyval \<Rightarrow> video \<Rightarrow> world \<Rightarrow> conv_state outcome \<times> world" where
  "intake_video env base caption v w =
     (case fetch_video env v w of
        (Refused r, w1) \<Rightarrow> reply_and_return env r MAIN_MENU w1
      | (Fetched None, w1) \<Rightarrow> reply_and_return env R_video_missing MAIN_MENU w1
      | (Fetched (Some p), w1) \<Rightarrow>
          if p = [] \<or> \<not> path_exists (files w1) p
          then reply_and_return env R_video_missing MAIN_MENU w1
          else if getsize (files w1) p = 0
          then reply_and_return env R_video_empty MAIN_MENU
                 (w1\<lparr>files := try_remove (unlink_ok env) (files w1) p\<rparr>)
          else add_post env
                 (base(''type'' \<mapsto> PStr ''video'', ''content'' \<mapsto> PStr (video_id v),
                       ''caption'' \<mapsto> caption,
                       ''file_size'' \<mapsto>
                          PInt (int (if or_zero (video_bytes v) \<noteq> 0
                                     then or_zero (video_bytes v)
                                     else getsize (files w1) p)),
                       ''duration'' \<mapsto> PInt (int (or_zero (video_duration v))),
                       ''local_path'' \<mapsto> PStr p)) w1)"

text \<open>The text branch (lines 523--529) and the document branch (lines 691--706).\<close>

definition intake_text :: "media_env \<Rightarrow> pydict \<Rightarrow> string \<Rightarrow> world \<Rightarrow> conv_state outcome \<times> world" where
  "intake_text env base t w =
     add_post env (base(''type'' \<mapsto> PStr ''text'', ''content'' \<mapsto> PStr t, ''caption'' \<mapsto> PNone)) w"

definition intake_document ::
  "media_env \<Rightarrow> pydict \<Rightarrow> pyval \<Rightarrow> document \<Rightarrow> world \<Rightarrow> conv_state outcome \<times> world" where
  "intake_document env base caption doc w =
     add_post env
       (base(''type'' \<mapsto> PStr ''document'', ''content'' \<mapsto> PStr (document_id doc),
             ''caption'' \<mapsto> caption,
             ''file_size'' \<mapsto> PInt (int (or_zero (document_bytes doc))),
             ''filename'' \<mapsto>
                PStr (case document_name doc of
                        None \<Rightarrow> ''document_'' @ document_id doc
                      | Some n \<Rightarrow> if n = [] then ''document_'' @ document_id doc else n),
             ''local_path'' \<mapsto> PNone)) w"

text \<open>
  Lines 517--710: the kind of content decides the branch, in the order text, photo, video,
  document; anything else is refused.
\<close>

definition intake_content :: "media_env \<Rightarrow> pydict \<Rightarrow> message \<Rightarrow> world \<Rightarrow> conv_state outcome \<times> world" where
  "intake_content env base msg w =
     (let caption = PStr (case msg_caption msg of None \<Rightarrow> [] | Some c \<Rightarrow> c)
      in case msg_text msg of
           Some (c # cs) \<Rightarrow> intake_text env base (c # cs) w
         | other \<Rightarrow>
            (if msg_photo msg \<noteq> [] then intake_photo env base caption (last (msg_photo msg)) w
             else case msg_video msg of
                    Some v \<Rightarrow> intake_video env base caption v w
                  | None \<Rightarrow>
                     (case msg_document msg of
                        Some doc \<Rightarrow> intake_document env base caption doc w
                      | None \<Rightarrow> reply_and_return env R_unsupported WAITING_PUBLICATION_CONTENT w)))"

text \<open>
  The \<^verbatim>\<open>try\<close> block of the handler (lines 493--723): no channel, no intake; 24 posts
  or more, no intake. A selected channel that is absent or empty is \<open>None\<close>.
\<close>

definition intake_body :: "media_env \<Rightarrow> message \<Rightarrow> world \<Rightarrow> conv_state outcome \<times> world" where
  "intake_body env msg w =
     (case selected_channel (user_data w) of
        None \<Rightarrow> reply_and_return env R_no_channel_selected MAIN_MENU w
      | Some ch \<Rightarrow>
          if length (session_posts w) \<ge> 24
          then reply_and_return env R_limit_reached WAITING_PUBLICATION_CONTENT w
          else intake_content env
                 [''channel'' \<mapsto> dget ch ''username'', ''channel_name'' \<mapsto> dget ch ''name'']
                 msg w)"

definition handle_post_content :: "media_env \<Rightarrow> message \<Rightarrow> world \<Rightarrow> conv_state outcome \<times> world" where
  "handle_post_content env msg w =
     (case intake_body env msg w of
        (Returns st, w') \<Rightarrow> (Returns st, w')
      | (Raises e, w') \<Rightarrow> reply_and_return env R_intake_error MAIN_MENU (log_error e w'))"

text \<open>What an intake may do to the list of posts: nothing, or one post more at the end.\<close>

definition same_or_one_more :: "world \<Rightarrow> world \<Rightarrow> bool" where
  "same_or_one_more w w' =
     (posts (user_data w') = posts (user_data w)
      \<or> (\<exists>p. posts (user_data w') = Some (session_posts w @ [p])))"

section \<open>\<^verbatim>\<open>handlers/callback_handlers.py\<close>: \<^verbatim>\<open>process_thumbnail_and_upload\<close>\<close>

text \<open>
  A stage of the pipeline goes on with a value, returns from the function, or raises into
  the function's \<^verbatim>\<open>except Exception\<close>.
\<close>

datatype 'a flow = Next 'a | Ret bool | Exc string

text \<open>
  \<^verbatim>\<open>await safe_edit_callback_message(query, ...); return b\<close>: the edit raises when
  Telegram refuses it.
\<close>

definition edit_and_return :: "media_env \<Rightarrow> reply \<Rightarrow> bool \<Rightarrow> world \<Rightarrow> 'a flow \<times> world" where
  "edit_and_return env r b w =
     (case send_reply env r w of
        None \<Rightarrow> (Exc ''edit_message_text'', w)
      | Some w1 \<Rightarrow> (Ret b, w1))"

text \<open>The same from a stage that carries \<^verbatim>\<open>temp_files\<close>, none entered yet.\<close>

definition edit_and_fail :: "media_env \<Rightarrow> reply \<Rightarrow> world \<Rightarrow> 'a flow \<times> world \<times> string list" where
  "edit_and_fail env r w =
     (case send_reply env r w of
        None \<Rightarrow> (Exc ''edit_message_text'', w, [])
      | Some w1 \<Rightarrow> (Ret False, w1, []))"

subsection \<open>Stage 1: the post and its channel (lines 3033--3070)\<close>

text \<open>
  \<^verbatim>\<open>'posts' not in context.user_data or post_index >= len(posts)\<close> returns
  \<^verbatim>\<open>False\<close>; \<^verbatim>\<open>posts[post_index]\<close> then follows Python's indexing, where a
  negative index counts from the end and raises \<^verbatim>\<open>IndexError\<close> below \<open>-len\<close>.
\<close>

definition pt_locate :: "int \<Rightarrow> world \<Rightarrow> nat flow" where
  "pt_locate post_index w =
     (case posts (user_data w) of
        None \<Rightarrow> Ret False
      | Some ps \<Rightarrow>
          if post_index \<ge> int (length ps) then Ret False
          else if 0 \<le> post_index then Next (nat post_index)
          else if - int (length ps) \<le> post_index then Next (nat (int (length ps) + post_index))
          else Exc ''IndexError'')"

text \<open>\<^verbatim>\<open>normalize_channel_username\<close> (lines 88--94).\<close>

definition normalize_channel_username :: "pyval \<Rightarrow> string option" where
  "normalize_channel_username u =
     (if \<not> truthy u then None
      else case u of
             PStr s \<Rightarrow> Some (dropWhile (\<lambda>c. c = CHR ''@'') s)
           | other \<Rightarrow> None)"

definition pt_check_post :: "media_env \<Rightarrow> pydict \<Rightarrow> world \<Rightarrow> string flow \<times> world" where
  "pt_check_post env post w =
     (if \<not> truthy (dget post ''type'') \<or> \<not> truthy (dget post ''content'')
      then edit_and_return env E_invalid_post False w
      else
        (let channel_username =
               (case post ''channel'' of
                  Some c \<Rightarrow> c
                | None \<Rightarrow> (case selected_channel (user_data w) of
                             None \<Rightarrow> PNone
                           | Some ch \<Rightarrow> dget ch ''username''))
         in case normalize_channel_username channel_username of
              None \<Rightarrow> edit_and_return env E_channel_unknown False w
            | Some clean \<Rightarrow>
                if clean = [] then edit_and_return env E_channel_unknown False w
                else (Next clean, w)))"

subsection \<open>Stage 2: the thumbnail (lines 3072--3101)\<close>

text \<open>
  The result is \<^verbatim>\<open>thumbnail_file_id\<close> and \<^verbatim>\<open>thumbnail_local_path\<close>. The log
  line 3101 slices the file id, which raises on a truthy value that is not a string.
\<close>

definition pt_thumbnail :: "media_env \<Rightarrow> string \<Rightarrow> world \<Rightarrow> (pyval \<times> pyval) flow \<times> world" where
  "pt_thumbnail env clean w =
     (case get_thumbnail env clean (effective_user env) of
        ThumbNone \<Rightarrow> edit_and_return env E_no_thumbnail False w
      | ThumbId s \<Rightarrow>
          if s = [] then edit_and_return env E_no_thumbnail False w
          else (Next (PStr s, PNone), w)
      | ThumbDict file_id local_path \<Rightarrow>
          (case file_id of
             PInt i \<Rightarrow> if i \<noteq> 0 then (Exc ''TypeError'', w) else (Next (file_id, local_path), w)
           | PBool b \<Rightarrow> if b then (Exc ''TypeError'', w) else (Next (file_id, local_path), w)
           | other \<Rightarrow> (Next (file_id, local_path), w)))"

subsection \<open>Stage 3: the original file (lines 3103--3257)\<close>

text \<open>
  The local file of the post is checked and used when the post has one (lines 3114--3169).
\<close>

definition pt_local_file :: "media_env \<Rightarrow> string \<Rightarrow> world \<Rightarrow> string flow \<times> world" where
  "pt_local_file env p w =
     (case files w p of
        None \<Rightarrow> edit_and_return env E_local_absent False w
      | Some i \<Rightarrow>
          if \<not> isfile i then edit_and_return env E_local_not_file False w
          else if fsize i = 0 then edit_and_return env E_local_empty False w
          else if \<not> readable i then edit_and_return env E_local_unreadable False w
          else (Next p, w))"

text \<open>
  A downloaded path is good when it is not empty, exists and has a size other than 0
  (lines 3188 and 3224).
\<close>

definition good_download :: "fs \<Rightarrow> string option \<Rightarrow> bool" where
  "good_download f p =
     (case p of
        None \<Rightarrow> False
      | Some q \<Rightarrow> q \<noteq> [] \<and> path_exists f q \<and> getsize f q \<noteq> 0)"

text \<open>
  The fallback of lines 3202--3243: an advanced client fetches the file; only a good
  download is entered in \<^verbatim>\<open>temp_files\<close>. The third component of the result is
  the list \<^verbatim>\<open>temp_files\<close>.
\<close>

definition pt_fallback :: "media_env \<Rightarrow> string \<Rightarrow> world \<Rightarrow> string flow \<times> world \<times> string list" where
  "pt_fallback env content w =
     (case best_client env (100 * 1024 * 1024) of
        Raises c \<Rightarrow> edit_and_fail env E_fetch_failed w
      | Returns (client, client_type) \<Rightarrow>
          if (client_type = ''pyrogram'' \<or> client_type = ''telethon'') \<and> client
          then
            (let d = client_download env client_type content
                       (''temp_'' @ decimal (effective_user env) @ ''_'' @ decimal (unix_time env));
                 w1 = attempt (Advanced client_type) d w
             in case answer d of
                  Raises c \<Rightarrow> edit_and_fail env E_fetch_failed w1
                | Returns p \<Rightarrow>
                    if good_download (files w1) p then (Next (the p), w1, [the p])
                    else edit_and_fail env E_fetch_failed w1)
          else edit_and_fail env E_fetch_failed w)"

text \<open>
  The handler of line 3194 for an exception with the text \<open>e\<close>: the fallback for a file
  that is too big or whose reference has expired, a message to the user otherwise.
\<close>

definition pt_download_failed ::
  "media_env \<Rightarrow> string \<Rightarrow> string \<Rightarrow> world \<Rightarrow> string flow \<times> world \<times> string list" where
  "pt_download_failed env content e w =
     (if too_big_or_expired e then pt_fallback env content w
      else edit_and_fail env E_download_error w)"

text \<open>
  Lines 3182--3192: the Bot API is asked first. The path is entered in
  \<^verbatim>\<open>temp_files\<close> after the check of line 3188 has passed; a download that fails the
  check raises before that line.
\<close>

definition pt_download :: "media_env \<Rightarrow> pyval \<Rightarrow> world \<Rightarrow> string flow \<times> world \<times> string list" where
  "pt_download env content w =
     (case content of
        PStr c \<Rightarrow>
          (let d = bot_download env c [];
               w1 = attempt BotAPI d w
           in case answer d of
                Raises e \<Rightarrow> pt_download_failed env c e w1
              | Returns p \<Rightarrow>
                  if good_download (files w1) p then (Next (the p), w1, [the p])
                  else pt_download_failed env c ''Fichier invalide via API Bot'' w1)
      | other \<Rightarrow>
          edit_and_fail env E_download_error w)"

definition pt_source :: "media_env \<Rightarrow> pydict \<Rightarrow> world \<Rightarrow> string flow \<times> world \<times> string list" where
  "pt_source env post w =
     (case send_reply env E_validating w of
        None \<Rightarrow> (Exc ''edit_message_text'', w, [])
      | Some w1 \<Rightarrow>
          if truthy (dget post ''local_path'')
          then (case dget post ''local_path'' of
                  PStr p \<Rightarrow> (fst (pt_local_file env p w1), snd (pt_local_file env p w1), [])
                | other \<Rightarrow> (Exc ''TypeError'', w1, []))
          else (case send_reply env E_downloading w1 of
                  None \<Rightarrow> (Exc ''edit_message_text'', w1, [])
                | Some w2 \<Rightarrow> pt_download env (dget post ''content'') w2))"

subsection \<open>Stage 4: the final check of the file (lines 3259--3285)\<close>

definition pt_validate :: "media_env \<Rightarrow> string \<Rightarrow> world \<Rightarrow> string flow \<times> world" where
  "pt_validate env file_path w =
     (if file_path = [] \<or> \<not> path_exists (files w) file_path
      then edit_and_return env E_file_missing False w
      else if getsize (files w) file_path = 0
      then edit_and_return env E_file_empty False w
      else (Next file_path, w))"

subsection \<open>Stage 5: the upload and the swap (lines 3289--3444)\<close>

text \<open>
  Lines 3332--3334: the three assignments that replace the file id.
\<close>

definition swapped :: "pydict \<Rightarrow> string \<Rightarrow> pydict" where
  "swapped post fid =
     post(''content'' \<mapsto> PStr fid, ''has_custom_thumbnail'' \<mapsto> PBool True,
          ''original_file_id'' \<mapsto> dget post ''content'')"

definition swap_post :: "nat \<Rightarrow> string \<Rightarrow> world \<Rightarrow> world" where
  "swap_post j fid w =
     (case posts (user_data w) of
        None \<Rightarrow> w
      | Some ps \<Rightarrow> w\<lparr>user_data := (user_data w)\<lparr>posts := Some (ps[j := swapped (ps ! j) fid])\<rparr>\<rparr>)"

text \<open>Line 3298: the local thumbnail when it exists, the file id otherwise.\<close>

definition thumb_to_use :: "fs \<Rightarrow> pyval \<times> pyval \<Rightarrow> pyval" where
  "thumb_to_use f thumb =
     (case snd thumb of
        PStr p \<Rightarrow> if p \<noteq> [] \<and> path_exists f p then PStr p else fst thumb
      | other \<Rightarrow> fst thumb)"

text \<open>
  Lines 3338--3439, after the swap: forget the two message ids, show the file with its
  buttons; when that fails, edit the message instead; \<^verbatim>\<open>return True\<close>.
\<close>

definition pt_after_swap :: "media_env \<Rightarrow> world \<Rightarrow> bool outcome \<times> world" where
  "pt_after_swap env w =
     (let w1 = w\<lparr>user_data := (user_data w)\<lparr>thumbnail_prompt_message_id := None,
                                               original_file_message_id := None\<rparr>\<rparr>
      in if show_result_ok env then (Returns True, w1)
         else (case send_reply env E_applied w1 of
                 None \<Rightarrow> (Raises ''edit_message_text'', w1)
               | Some w2 \<Rightarrow> (Returns True, w2)))"

definition pt_upload ::
  "media_env \<Rightarrow> nat \<Rightarrow> pydict \<Rightarrow> pyval \<times> pyval \<Rightarrow> string \<Rightarrow> world \<Rightarrow> bool outcome \<times> world" where
  "pt_upload env j post thumb file_path w =
     (case send_reply env E_uploading w of
        None \<Rightarrow> (Raises ''edit_message_text'', w)
      | Some w1 \<Rightarrow>
          (case send_file_smart env file_path (thumb_to_use (files w1) thumb) post of
             Raises e \<Rightarrow> (Raises e, w1)
           | Returns r \<Rightarrow>
               if success r
               then (case new_file_id r of
                       None \<Rightarrow> (Raises ''Aucun file_id'', w1)
                     | Some fid \<Rightarrow>
                         if fid = [] then (Raises ''Aucun file_id'', w1)
                         else pt_after_swap env (swap_post j fid w1))
               else (Raises ''Echec de send_file_smart'', w1)))"

subsection \<open>The function\<close>

text \<open>The stages in sequence: the \<^verbatim>\<open>try\<close> block, with \<^verbatim>\<open>temp_files\<close>.\<close>

definition pt_with_file ::
  "media_env \<Rightarrow> nat \<Rightarrow> pydict \<Rightarrow> pyval \<times> pyval \<Rightarrow> string \<Rightarrow> world \<Rightarrow> bool outcome \<times> world" where
  "pt_with_file env j post thumb file_path w =
     (case pt_validate env file_path w of
        (Next p, w1) \<Rightarrow> pt_upload env j post thumb p w1
      | (Ret b, w1) \<Rightarrow> (Returns b, w1)
      | (Exc e, w1) \<Rightarrow> (Raises e, w1))"

definition pt_with_thumbnail ::
  "media_env \<Rightarrow> nat \<Rightarrow> pydict \<Rightarrow> pyval \<times> pyval \<Rightarrow> world \<Rightarrow> bool outcome \<times> world \<times> string list" where
  "pt_with_thumbnail env j post thumb w =
     (case pt_source env post w of
        (Next file_path, w1, temps) \<Rightarrow>
          (fst (pt_with_file env j post thumb file_path w1),
           snd (pt_with_file env j post thumb file_path w1), temps)
      | (Ret b, w1, temps) \<Rightarrow> (Returns b, w1, temps)
      | (Exc e, w1, temps) \<Rightarrow> (Raises e, w1, temps))"

definition pt_with_post ::
  "media_env \<Rightarrow> nat \<Rightarrow> pydict \<Rightarrow> world \<Rightarrow> bool outcome \<times> world \<times> string list" where
  "pt_with_post env j post w =
     (case pt_check_post env post w of
        (Ret b, w1) \<Rightarrow> (Returns b, w1, [])
      | (Exc e, w1) \<Rightarrow> (Raises e, w1, [])
      | (Next clean, w1) \<Rightarrow>
          (case pt_thumbnail env clean w1 of
             (Ret b, w2) \<Rightarrow> (Returns b, w2, [])
           | (Exc e, w2) \<Rightarrow> (Raises e, w2, [])
           | (Next thumb, w2) \<Rightarrow> pt_with_thumbnail env j post thumb w2))"

definition pt_body :: "media_env \<Rightarrow> int \<Rightarrow> world \<Rightarrow> bool outcome \<times> world \<times> string list" where
  "pt_body env post_index w =
     (case pt_locate post_index w of
        Ret b \<Rightarrow> (Returns b, w, [])
      | Exc e \<Rightarrow> (Raises e, w, [])
      | Next j \<Rightarrow> pt_with_post env j (session_posts w ! j) w)"

text \<open>
  The \<^verbatim>\<open>finally\<close> block (lines 3461--3470): every path of \<^verbatim>\<open>temp_files\<close> that
  exists is removed; a refused removal is logged and skipped.
\<close>

definition cleanup :: "(string \<Rightarrow> bool) \<Rightarrow> string list \<Rightarrow> fs \<Rightarrow> fs" where
  "cleanup ok temps f = fold (\<lambda>p g. try_remove ok g p) temps f"

text \<open>
  \<^verbatim>\<open>process_thumbnail_and_upload(update, context, post_index)\<close>: the
  \<^verbatim>\<open>except Exception\<close> logs, edits the message and returns \<^verbatim>\<open>False\<close> (an edit
  that fails here leaves the function as an exception); \<^verbatim>\<open>finally\<close> cleans up.
\<close>

definition process_thumbnail_and_upload :: "media_env \<Rightarrow> int \<Rightarrow> world \<Rightarrow> bool outcome \<times> world" where
  "process_thumbnail_and_upload env post_index w =
     (let body = pt_body env post_index w;
          handled =
            (case fst body of
               Returns b \<Rightarrow> (Returns b, fst (snd body))
             | Raises e \<Rightarrow>
                 (case send_reply env E_processing_error (log_error e (fst (snd body))) of
                    None \<Rightarrow> (Raises ''edit_message_text'', log_error e (fst (snd body)))
                  | Some w1 \<Rightarrow> (Returns False, w1)))
      in (fst handled,
          (snd handled)\<lparr>files := cleanup (unlink_ok env) (snd (snd body)) (files (snd handled))\<rparr>))"

section \<open>Concrete inputs\<close>

subsection \<open>An image that stays above the cap at every quality\<close>

definition cfg0 :: settings where
  "cfg0 = \<lparr>temp_folder = ''temp'', thumb_quality = 85, max_thumb_size = 204800\<rparr>"

definition heavy_image :: pil_env where
  "heavy_image = \<lparr>makedirs_ok = (\<lambda>p. True),
     image_open = (\<lambda>p. Some (\<lambda>q. Some 300000)),
     rm_ok = (\<lambda>p. True)\<rparr>"

subsection \<open>An image whose size falls with the quality\<close>

text \<open>
  An image that encodes to 3000 bytes per point of quality: 255000 bytes at quality 85,
  195000 bytes at quality 65, the first quality of the loop under the cap of 204800.
\<close>

definition shrinking_image :: pil_env where
  "shrinking_image = \<lparr>makedirs_ok = (\<lambda>p. True),
     image_open = (\<lambda>p. Some (\<lambda>q. Some (nat (3000 * q)))),
     rm_ok = (\<lambda>p. True)\<rparr>"

subsection \<open>A user in Paris schedules a text post for 14:30\<close>

text \<open>
  The zone is one hour ahead of UTC; the clock reads 09:00 UTC, 10:00 in the zone, on the
  first day of the epoch. The dispatcher of this environment raises without touching the
  store; the job queue does not know \<^verbatim>\<open>remove_job\<close>.
\<close>

definition paris_winter :: tzinfo where
  "paris_winter = (\<lambda>u. 3600000000)"

definition env0 :: sched_env where
  "env0 = \<lparr>reply_ok = (\<lambda>r. True),
     py_int = (\<lambda>s. if s = ''14'' then Some 14 else if s = ''30'' then Some 30
                          else if s = ''9'' then Some 9 else None),
     user_timezone = Some ''Europe/Paris'',
     pytz_timezone = (\<lambda>n. if n = ''Europe/Paris'' then Some paris_winter else None),
     utc_now = 32400000000,
     global_scheduler_set = True,
     bot_module_scheduler = False,
     temporary_scheduler_ok = True,
     insert_ok = (\<lambda>p. True),
     delete_ok = True,
     send_scheduled_file = (\<lambda>pid st. (Raises ''Chat not found'', st)),
     has_job_queue = True,
     queue_remove_job = (\<lambda>jid q. Raises ''AttributeError'')\<rparr>"

definition text_post :: pydict where
  "text_post = [''type'' \<mapsto> PStr ''text'', ''content'' \<mapsto> PStr ''hello'', ''caption'' \<mapsto> PNone]"

definition w0 :: world where
  "w0 = \<lparr>user_data = cleared\<lparr>schedule_day := Some ''today'', posts := Some [text_post],
                                selected_channel := Some [''id'' \<mapsto> PInt 7]\<rparr>,
     rows = [], last_rowid = 0, jobs = [], job_queue = [], replies = [], errors = [],
     dispatched = [], delivered = [], files = Map.empty, attempts = []\<rparr>"

text \<open>
  The world after the post has been scheduled, and the same world once the user has opened
  the post (\<^verbatim>\<open>show_scheduled_post\<close> stores it under
  \<^verbatim>\<open>current_scheduled_post\<close>).
\<close>

definition w_scheduled :: world where
  "w_scheduled = snd (handle_schedule_time env0 (Some ''14:30'') w0)"

definition w_opened :: world where
  "w_opened = w_scheduled\<lparr>user_data := cleared\<lparr>current_scheduled_post := Some [''id'' \<mapsto> PInt 1]\<rparr>\<rparr>"

subsection \<open>A text post sent now with an auto-destruction of 300 seconds\<close>

text \<open>
  The file is written against python-telegram-bot from version 20 on (coroutine handlers,
  \<^verbatim>\<open>ContextTypes.DEFAULT_TYPE\<close>, \<^verbatim>\<open>context.application\<close>), where
  \<^verbatim>\<open>JobQueue.run_once(callback, when, data=None, name=None, chat_id=None,
  user_id=None, job_kwargs=None)\<close> has no parameter \<^verbatim>\<open>context\<close>.
\<close>

definition ptb20_run_once_parameters :: "string list" where
  "ptb20_run_once_parameters =
     [''callback'', ''when'', ''data'', ''name'', ''chat_id'', ''user_id'', ''job_kwargs'']"

text \<open>
  Every send succeeds with message id 42, the application has a job queue and it takes
  every job that is handed to it with keywords it declares; the clock is at second 1000.
\<close>

definition send_env0 :: send_env where
  "send_env0 = \<lparr>reply_ok = (\<lambda>r. True),
     bot_send = (\<lambda>channel post. Returns (Some 42)),
     application_job_queue = True,
     run_once_parameters = ptb20_run_once_parameters,
     run_once_ok = (\<lambda>name. True),
     now_seconds = 1000\<rparr>"

definition w_send :: world where
  "w_send = w0\<lparr>user_data := cleared\<lparr>posts := Some [text_post],
                                       selected_channel := Some [''username'' \<mapsto> PStr ''chan''],
                                       auto_destruction_time := Some 300\<rparr>\<rparr>"

subsection \<open>Media: a video of 2 GB, an empty download, a good download\<close>

text \<open>
  The Bot API of this environment refuses the file \<^verbatim>\<open>BIG\<close> as too big, leaves an
  empty file for \<^verbatim>\<open>EMPTY\<close> and a file of 1000 bytes for every other id; the
  advanced client is Pyrogram and downloads anything; the upload succeeds with the new
  file id \<^verbatim>\<open>NEWID\<close>.
\<close>

text \<open>
  Modelled from the spec: the declared size limit of the primary backend, which the sources
  at hand do not declare anywhere; the spec's scenario gives it as 50 MB.
\<close>

definition bot_api_limit :: nat where
  "bot_api_limit = 50 * 1024 * 1024"

definition media_env0 :: media_env where
  "media_env0 = \<lparr>reply_ok = (\<lambda>r. True),
     bot_download = (\<lambda>fid target.
        if fid = ''BIG'' then \<lparr>leaves = None, answer = Raises ''Bad Request: File is too big''\<rparr>
        else if fid = ''EMPTY''
        then \<lparr>leaves = Some (''file_0.mp4'', 0), answer = Returns (Some ''file_0.mp4'')\<rparr>
        else \<lparr>leaves = Some (''file_1.mp4'', 1000), answer = Returns (Some ''file_1.mp4'')\<rparr>),
     best_client = (\<lambda>n. Returns (True, ''pyrogram'')),
     client_download = (\<lambda>t fid target.
        \<lparr>leaves = Some (target, 2147483648), answer = Returns (Some target)\<rparr>),
     unix_time = 1700000000,
     effective_user = 5,
     unlink_ok = (\<lambda>p. True),
     show_post = (\<lambda>p. (Some 77, True)),
     get_thumbnail = (\<lambda>c u. ThumbId ''THUMB''),
     send_file_smart = (\<lambda>path thumb post.
        Returns \<lparr>success = True, sent_message_id = Some 9, new_file_id = Some ''NEWID'',
                 error_detail = None\<rparr>),
     show_result_ok = True\<rparr>"

definition big_video :: video where
  "big_video = \<lparr>video_id = ''BIG'', video_bytes = Some 2147483648, video_duration = Some 60\<rparr>"

definition big_video_message :: message where
  "big_video_message = \<lparr>msg_text = None, msg_photo = [], msg_video = Some big_video,
     msg_document = None, msg_caption = None\<rparr>"

definition hello_message :: message where
  "hello_message = \<lparr>msg_text = Some ''hello'', msg_photo = [], msg_video = None,
     msg_document = None, msg_caption = None\<rparr>"

definition w_intake :: world where
  "w_intake = w0\<lparr>user_data := cleared\<lparr>selected_channel :=
                    Some [''username'' \<mapsto> PStr ''chan'', ''name'' \<mapsto> PStr ''Chan'']\<rparr>\<rparr>"


definition w_full :: world where
  "w_full = w0\<lparr>user_data := cleared\<lparr>posts := Some (replicate 24 text_post),
                    selected_channel :=
                      Some [''username'' \<mapsto> PStr ''chan'', ''name'' \<mapsto> PStr ''Chan'']\<rparr>\<rparr>"

text \<open>
  Two sessions with one video post that has no local file: its file id is
  \<^verbatim>\<open>EMPTY\<close> in the first and \<^verbatim>\<open>OK\<close> in the second.
\<close>

definition video_post :: "string \<Rightarrow> pydict" where
  "video_post fid = [''type'' \<mapsto> PStr ''video'', ''content'' \<mapsto> PStr fid,
     ''caption'' \<mapsto> PStr [], ''channel'' \<mapsto> PStr ''@chan'']"

definition w_thumb :: "string \<Rightarrow> world" where
  "w_thumb fid = w0\<lparr>user_data := cleared\<lparr>posts := Some [video_post fid]\<rparr>\<rparr>"
section \<open>Properties of \<^verbatim>\<open>optimize_thumbnail\<close>\<close>

lemma reduce_quality_stops:
  "reduce_quality save cap q sz = Some (q', sz') \<Longrightarrow> sz' \<le> cap \<or> q' \<le> 5"
proof (induction save cap q sz rule: reduce_quality.induct)
  case (1 save cap q sz)
  show ?case
  proof (cases "sz > cap \<and> q > 5")
    case True
    then obtain s where s: "save (q - 5) = Some s"
      using "1.prems" by (cases "save (q - 5)") (simp_all add: reduce_quality.simps [of save cap q sz])
    with True "1.prems" have "reduce_quality save cap (q - 5) s = Some (q', sz')"
      by (simp add: reduce_quality.simps [of save cap q sz])
    with "1.IH" True s show ?thesis by blast
  next
    case False
    with "1.prems" have "q' = q" "sz' = sz"
      by (simp_all add: reduce_quality.simps [of save cap q sz])
    with False show ?thesis by auto
  qed
qed



lemma reduce_quality_total:
  "\<forall>q. save q \<noteq> None \<Longrightarrow> \<exists>r. reduce_quality save cap q sz = Some r"
proof (induction save cap q sz rule: reduce_quality.induct)
  case (1 save cap q sz)
  show ?case
  proof (cases "sz > cap \<and> q > 5")
    case True
    from "1.prems" have "save (q - 5) \<noteq> None" by blast
    then obtain s where s: "save (q - 5) = Some s" by auto
    from "1.IH" [OF True s "1.prems"] obtain r where "reduce_quality save cap (q - 5) s = Some r" by blast
    with True s show ?thesis by (simp add: reduce_quality.simps [of save cap q sz])
  next
    case False
    then show ?thesis by (auto simp add: reduce_quality.simps [of save cap q sz])
  qed
qed

lemma reduce_quality_steps:
  "reduce_quality save cap q sz = Some (q', sz') \<Longrightarrow>
     q' \<le> q \<and> 5 dvd (q - q') \<and> (if q' = q then sz' = sz else save q' = Some sz')"
proof (induction save cap q sz rule: reduce_quality.induct)
  case (1 save cap q sz)
  show ?case
  proof (cases "sz > cap \<and> q > 5")
    case True
    then obtain s where s: "save (q - 5) = Some s"
      using "1.prems" by (cases "save (q - 5)") (simp_all add: reduce_quality.simps [of save cap q sz])
    with True "1.prems" have r: "reduce_quality save cap (q - 5) s = Some (q', sz')"
      by (simp add: reduce_quality.simps [of save cap q sz])
    from "1.IH" [OF True s r] have ih: "q' \<le> q - 5" "5 dvd (q - 5 - q')"
      "if q' = q - 5 then sz' = s else save q' = Some sz'" by auto
    from ih(2) have "5 dvd (q - q')" by presburger
    moreover from ih(1) have "q' \<noteq> q" "q' \<le> q" by auto
    moreover from ih(3) s have "save q' = Some sz'" by (auto split: if_splits)
    ultimately show ?thesis by simp
  next
    case False
    with "1.prems" have "q' = q" "sz' = sz"
      by (simp_all add: reduce_quality.simps [of save cap q sz])
    then show ?thesis by simp
  qed
qed


text \<open>
  The loop does not pass a quality that fits: every quality \<open>k\<close> of the descent above
  the one it stops at is above 5 and gave a file over the cap.
\<close>

lemma reduce_quality_first_stop:
  "reduce_quality save cap q sz = Some (q', sz') \<Longrightarrow> q' < k \<Longrightarrow> k \<le> q \<Longrightarrow> 5 dvd (q - k) \<Longrightarrow>
     5 < k \<and> (if k = q then cap < sz else \<exists>s. save k = Some s \<and> cap < s)"
proof (induction save cap q sz rule: reduce_quality.induct)
  case (1 save cap q sz)
  show ?case
  proof (cases "sz > cap \<and> q > 5")
    case go: True
    then obtain s where s: "save (q - 5) = Some s"
      using "1.prems"(1) by (cases "save (q - 5)") (simp_all add: reduce_quality.simps [of save cap q sz])
    with go "1.prems"(1) have r: "reduce_quality save cap (q - 5) s = Some (q', sz')"
      by (simp add: reduce_quality.simps [of save cap q sz])
    show ?thesis
    proof (cases "k = q")
      case True
      with go show ?thesis by simp
    next
      case False
      with "1.prems"(3,4) have below: "k \<le> q - 5" "5 dvd (q - 5 - k)" by presburger+
      from "1.IH" [OF go s r "1.prems"(2) below]
      have "5 < k" "if k = q - 5 then cap < s else \<exists>s'. save k = Some s' \<and> cap < s'" by simp_all
      with s False show ?thesis by (auto split: if_splits)
    qed
  next
    case stop: False
    with "1.prems"(1) have "q' = q"
      by (simp add: reduce_quality.simps [of save cap q sz])
    with "1.prems"(2,3) show ?thesis by simp
  qed
qed

text \<open>
  Claim C6, as amended. When the directory can be made, the image opens and every save
  succeeds, \<^verbatim>\<open>optimize_thumbnail\<close> always returns the output path: the file it
  leaves was encoded at a quality \<open>q\<close> reached from \<^verbatim>\<open>settings.thumb_quality\<close>
  in steps of 5, and either it fits under \<^verbatim>\<open>settings.max_thumb_size\<close> or the
  quality has come down to 5 or less. The loop stops at the first such quality: every
  quality \<open>k\<close> of the descent above \<open>q\<close> is above 5 and encodes to a file over the
  cap. The size alone never makes the function fail.
\<close>

theorem optimize_thumbnail_best_effort:
  assumes dirs: "makedirs_ok env (path_join (temp_folder cfg) ''thumb_temp.jpg'')"
    and img: "image_open env image_path = Some save"
    and saves: "\<forall>q. save q \<noteq> None"
  shows "\<exists>q sz. optimize_thumbnail cfg env f image_path None
            = (Some (path_join (temp_folder cfg) ''thumb_temp.jpg''),
               f(path_join (temp_folder cfg) ''thumb_temp.jpg'' \<mapsto> regular_file sz))
          \<and> save q = Some sz
          \<and> q \<le> thumb_quality cfg \<and> 5 dvd (thumb_quality cfg - q)
          \<and> (sz \<le> max_thumb_size cfg \<or> q \<le> 5)
          \<and> (\<forall>k. q < k \<and> k \<le> thumb_quality cfg \<and> 5 dvd (thumb_quality cfg - k)
                 \<longrightarrow> 5 < k \<and> (\<exists>s. save k = Some s \<and> max_thumb_size cfg < s))"
proof -
  let ?out = "path_join (temp_folder cfg) ''thumb_temp.jpg''"
  from saves have "save (thumb_quality cfg) \<noteq> None" by blast
  then obtain sz0 where sz0: "save (thumb_quality cfg) = Some sz0" by auto
  show ?thesis
  proof (cases "sz0 > max_thumb_size cfg")
    case False
    with dirs img sz0 have "optimize_thumbnail cfg env f image_path None
        = (Some ?out, f(?out \<mapsto> regular_file sz0))"
      by (simp add: optimize_thumbnail_def getsize_def regular_file_def Let_def)
    with sz0 False show ?thesis by (intro exI [of _ "thumb_quality cfg"] exI [of _ sz0]) auto
  next
    case True
    from reduce_quality_total [OF saves] obtain q sz
      where r: "reduce_quality save (max_thumb_size cfg) (thumb_quality cfg) sz0 = Some (q, sz)"
      by (metis surj_pair)
    from reduce_quality_steps [OF r] have st: "q \<le> thumb_quality cfg" "5 dvd (thumb_quality cfg - q)"
      "if q = thumb_quality cfg then sz = sz0 else save q = Some sz" by auto
    from st(3) sz0 have sq: "save q = Some sz" by (auto split: if_splits)
    from reduce_quality_stops [OF r] have stop: "sz \<le> max_thumb_size cfg \<or> q \<le> 5" .
    have first: "5 < k \<and> (\<exists>s. save k = Some s \<and> max_thumb_size cfg < s)"
      if k: "q < k \<and> k \<le> thumb_quality cfg \<and> 5 dvd (thumb_quality cfg - k)" for k
    proof -
      from k have k1: "q < k" and k2: "k \<le> thumb_quality cfg" and k3: "5 dvd (thumb_quality cfg - k)"
        by simp_all
      from reduce_quality_first_stop [OF r k1 k2 k3] sz0 True show ?thesis
        by (auto split: if_splits)
    qed
    from dirs img sz0 True r have "optimize_thumbnail cfg env f image_path None
        = (Some ?out, f(?out \<mapsto> regular_file sz))"
      by (simp add: optimize_thumbnail_def getsize_def regular_file_def Let_def)
    with sq st stop first show ?thesis by (intro exI [of _ q] exI [of _ sz]) simp
  qed
qed

text \<open>
  The theorem at the image of \<open>shrinking_image\<close>, with quality 85 and a cap of 204800
  bytes. The qualities 85, 80, 75 and 70 give 255000, 240000, 225000 and 210000 bytes, and
  65 gives 195000: the theorem alone fixes the quality the loop stops at, 65, and the file
  it leaves, 195000 bytes.
\<close>

theorem optimize_thumbnail_best_effort_witness:
  "optimize_thumbnail cfg0 shrinking_image Map.empty ''in.png'' None
     = (Some ''temp/thumb_temp.jpg'', [''temp/thumb_temp.jpg'' \<mapsto> regular_file 195000])"
proof -
  have dirs: "makedirs_ok shrinking_image (path_join (temp_folder cfg0) ''thumb_temp.jpg'')"
    by (simp add: shrinking_image_def)
  have img: "image_open shrinking_image ''in.png'' = Some (\<lambda>q. Some (nat (3000 * q)))"
    by (simp add: shrinking_image_def)
  have saves: "\<forall>q. (\<lambda>q. Some (nat (3000 * q))) q \<noteq> None" by simp
  from optimize_thumbnail_best_effort [OF dirs img saves, of Map.empty]
  obtain q sz where res: "optimize_thumbnail cfg0 shrinking_image Map.empty ''in.png'' None
        = (Some (path_join (temp_folder cfg0) ''thumb_temp.jpg''),
           [path_join (temp_folder cfg0) ''thumb_temp.jpg'' \<mapsto> regular_file sz])"
    and sz: "sz = nat (3000 * q)"
    and le: "q \<le> thumb_quality cfg0" and dv: "5 dvd (thumb_quality cfg0 - q)"
    and stop: "sz \<le> max_thumb_size cfg0 \<or> q \<le> 5"
    and first: "\<forall>k. q < k \<and> k \<le> thumb_quality cfg0 \<and> 5 dvd (thumb_quality cfg0 - k)
                 \<longrightarrow> 5 < k \<and> (\<exists>s. nat (3000 * k) = s \<and> max_thumb_size cfg0 < s)"
    by auto
  from stop sz have up: "q \<le> 68" by (auto simp: cfg0_def)
  have low: "65 \<le> q"
  proof (rule ccontr)
    assume "\<not> 65 \<le> q"
    with first [rule_format, of 65] show False by (simp add: cfg0_def)
  qed
  from up low dv have "q = 65" by (simp add: cfg0_def) presburger
  with sz have "sz = 195000" by simp
  with res show ?thesis by (simp add: cfg0_def path_join_def)
qed

text \<open>
  Claim C6 as stated fails: with a cap of 204800 bytes and an image that encodes to 300000
  bytes at every quality, the loop stops at quality 5 and the function returns the path of
  the file, which is over the cap, where the claim has it fail.
\<close>

theorem optimize_thumbnail_over_cap_counterexample:
  "fst (optimize_thumbnail cfg0 heavy_image Map.empty ''in.png'' None) = Some ''temp/thumb_temp.jpg''
   \<and> getsize (snd (optimize_thumbnail cfg0 heavy_image Map.empty ''in.png'' None)) ''temp/thumb_temp.jpg''
       > max_thumb_size cfg0
   \<and> reduce_quality (\<lambda>q. Some 300000) (max_thumb_size cfg0) (thumb_quality cfg0) 300000 = Some (5, 300000)"
  by (simp add: optimize_thumbnail_def cfg0_def heavy_image_def path_join_def getsize_def
      regular_file_def reduce_quality.simps Let_def)


section \<open>Properties of scheduling, firing and cancelling\<close>

text \<open>
  Whatever the job queue answers, \<^verbatim>\<open>handle_confirm_cancel\<close> leaves the job
  store of the scheduler as it found it.
\<close>

lemma reply_and_return_store:
  "rows (snd (reply_and_return env r st w)) = rows w \<and> jobs (snd (reply_and_return env r st w)) = jobs w"
  by (simp add: reply_and_return_def send_reply_def)

lemma cancel_never_touches_scheduler:
  "jobs (snd (handle_confirm_cancel env w)) = jobs w"
  by (auto simp: handle_confirm_cancel_def cancel_body_def reply_and_return_def send_reply_def
      cancel_in_job_queue_def log_error_def Let_def
      split: option.splits outcome.splits prod.splits if_splits)

text \<open>
  Claim C5. A request whose time parses to \<open>(h, m)\<close> and whose
  \<^verbatim>\<open>target_date_local\<close> is not after \<^verbatim>\<open>local_now\<close> in the user's zone
  inserts no row and adds no job; when there is content to schedule, the hour and minute
  are in range and the reply goes through, the handler answers with the past-time message
  and stays in \<^verbatim>\<open>SCHEDULE_SEND\<close>, the world otherwise unchanged.
\<close>

theorem past_time_creates_nothing:
  assumes msg: "text = Some t" "t \<noteq> []"
    and day: "schedule_day (user_data w) = Some day"
    and parse: "parse_hour_minute (py_int env) (strip t) = Some (h, m)"
    and zone: "pytz_timezone env (zone_name env) = Some tz"
    and past: "dt_le (target_date_local tz (utc_now env) day h m) (datetime_now tz (utc_now env))"
  shows "rows (snd (handle_schedule_time env text w)) = rows w
       \<and> jobs (snd (handle_schedule_time env text w)) = jobs w
       \<and> ((posts (user_data w) \<noteq> None \<and> posts (user_data w) \<noteq> Some []
             \<or> current_scheduled_post (user_data w) \<noteq> None)
            \<and> 0 \<le> h \<and> h \<le> 23 \<and> 0 \<le> m \<and> m \<le> 59 \<and> reply_ok env R_past_time
           \<longrightarrow> handle_schedule_time env text w
                 = (SCHEDULE_SEND, w\<lparr>replies := replies w @ [R_past_time]\<rparr>))"
  using assms
  by (auto simp: handle_schedule_time_def schedule_body_def reply_and_return_def send_reply_def
      log_error_def Let_def split: option.splits)

text \<open>
  The theorem at 10:00 local time for the request \<^verbatim>\<open>9\<close> (09:00 today).
\<close>

theorem past_time_creates_nothing_witness:
  "handle_schedule_time env0 (Some ''9'') w0 = (SCHEDULE_SEND, w0\<lparr>replies := [R_past_time]\<rparr>)"
proof -
  have p: "parse_hour_minute (py_int env0) (strip ''9'') = Some (9, 0)" by code_simp
  have z: "pytz_timezone env0 (zone_name env0) = Some paris_winter"
    by (simp add: env0_def zone_name_def)
  have d: "schedule_day (user_data w0) = Some ''today''" by code_simp
  have le: "dt_le (target_date_local paris_winter (utc_now env0) ''today'' 9 0)
              (datetime_now paris_winter (utc_now env0))" by code_simp
  have c: "posts (user_data w0) \<noteq> None \<and> posts (user_data w0) \<noteq> Some []"
    by (simp add: w0_def cleared_def)
  have ok: "reply_ok env0 R_past_time" by (simp add: env0_def)
  have r: "replies w0 = []" by (simp add: w0_def)
  have ne: "''9'' \<noteq> []" by simp
  from past_time_creates_nothing [OF refl ne d p z le] c ok r show ?thesis by simp
qed

text \<open>
  A job that is not in the store does not run, and a removed job is not in the store.
\<close>

lemma remove_job_gone: "map_of (remove_job js jid) jid = None"
  by (induction js) (auto simp: remove_job_def)

lemma unarmed_trigger_does_nothing:
  "map_of (jobs w) jid = None \<Longrightarrow> trigger_arrives env jid w = w"
  by (simp add: trigger_arrives_def)

text \<open>
  Claim C7, as amended. When the trigger of an armed job arrives and the dispatcher
  raises, the exception does not leave the job wrapper: it is written to the error log
  with its message. The wrapper writes nothing to the store: the table and the job store
  are what the dispatcher left, so no failed state and no reason are recorded; and when the
  dispatcher has left the job store alone, the job is gone from it and a later trigger of
  the same id does nothing: the job is not scheduled again.
\<close>

theorem failed_firing_is_logged_only:
  assumes armed: "map_of (jobs w) jid = Some j"
    and raised: "send_scheduled_file env (job_post j) (rows w, remove_job (jobs w) jid)
                   = (Raises e, (r, js))"
  shows "rows (trigger_arrives env jid w) = r
       \<and> jobs (trigger_arrives env jid w) = js
       \<and> errors (trigger_arrives env jid w)
           = errors w @ [''Erreur dans le job '' @ decimal (job_post j) @ '': '' @ e]
       \<and> dispatched (trigger_arrives env jid w) = dispatched w @ [job_post j]
       \<and> (js = remove_job (jobs w) jid
            \<longrightarrow> trigger_arrives env jid (trigger_arrives env jid w) = trigger_arrives env jid w)"
proof -
  let ?w' = "trigger_arrives env jid w"
  from armed raised have t: "?w'
      = w\<lparr>jobs := js, dispatched := dispatched w @ [job_post j], rows := r,
           errors := errors w @ [''Erreur dans le job '' @ decimal (job_post j) @ '': '' @ e]\<rparr>"
    by (simp add: trigger_arrives_def send_post_job_def log_error_def)
  have a: "rows ?w' = r" by (simp add: t)
  have b: "jobs ?w' = js" by (simp add: t)
  have c: "errors ?w' = errors w @ [''Erreur dans le job '' @ decimal (job_post j) @ '': '' @ e]"
    by (simp add: t)
  have d: "dispatched ?w' = dispatched w @ [job_post j]" by (simp add: t)
  have i: "js = remove_job (jobs w) jid \<longrightarrow> trigger_arrives env jid ?w' = ?w'"
  proof
    assume "js = remove_job (jobs w) jid"
    with b have "map_of (jobs ?w') jid = None" by (simp add: remove_job_gone)
    then show "trigger_arrives env jid ?w' = ?w'" by (rule unarmed_trigger_does_nothing)
  qed
  from a b c d i show ?thesis by blast
qed

text \<open>
  The theorem at the scheduled post of the example, with the dispatcher that raises
  \<^verbatim>\<open>Chat not found\<close>.
\<close>

theorem failed_firing_is_logged_only_witness:
  "rows (trigger_arrives env0 ''post_1'' w_scheduled) = rows w_scheduled
   \<and> jobs (trigger_arrives env0 ''post_1'' w_scheduled) = []
   \<and> errors (trigger_arrives env0 ''post_1'' w_scheduled) = [''Erreur dans le job 1: Chat not found'']
   \<and> trigger_arrives env0 ''post_1'' (trigger_arrives env0 ''post_1'' w_scheduled)
       = trigger_arrives env0 ''post_1'' w_scheduled"
proof -
  have a: "map_of (jobs w_scheduled) ''post_1''
             = Some \<lparr>run_date = \<lparr>wall = 52200000000, utcoff = 3600000000\<rparr>, job_post = 1\<rparr>"
    by code_simp
  have b: "send_scheduled_file env0 1 (rows w_scheduled, remove_job (jobs w_scheduled) ''post_1'')
             = (Raises ''Chat not found'', (rows w_scheduled, remove_job (jobs w_scheduled) ''post_1''))"
    by (simp add: env0_def)
  have c: "remove_job (jobs w_scheduled) ''post_1'' = []" "errors w_scheduled = []"
    "decimal 1 = ''1''" by code_simp+
  from failed_firing_is_logged_only [OF a, of env0 "''Chat not found''" "rows w_scheduled"
      "remove_job (jobs w_scheduled) ''post_1''"] b c
  show ?thesis by simp
qed

text \<open>
  Claim C7 as stated fails: after the trigger of \<^verbatim>\<open>post_1\<close> has fired and the
  dispatch has raised, the table holds the same row as before the firing; the failure is
  in the log only.
\<close>

theorem failed_firing_records_nothing_counterexample:
  "rows (trigger_arrives env0 ''post_1'' w_scheduled) = rows w_scheduled
   \<and> rows w_scheduled \<noteq> []
   \<and> errors (trigger_arrives env0 ''post_1'' w_scheduled) = [''Erreur dans le job 1: Chat not found'']
   \<and> dispatched (trigger_arrives env0 ''post_1'' w_scheduled) = [1]"
  by code_simp

text \<open>
  Every row that \<^verbatim>\<open>handle_schedule_time\<close> writes carries the wall-clock reading of
  the target, to the second, whatever the zone.
\<close>

lemma schedule_one_stores_wall_clock:
  "rows (snd (schedule_one env target ch mgr post acc)) = rows (snd acc)
   \<or> (\<exists>row. rows (snd (schedule_one env target ch mgr post acc)) = rows (snd acc) @ [row]
            \<and> scheduled_time row = wall target div 1000000)"
  by (simp add: schedule_one_def log_error_def strftime_seconds_def Let_def
      split: option.splits sched_ref.splits)

text \<open>
  Claim C1 at the example: for 14:30 in a zone one hour ahead of UTC the stored
  \<^verbatim>\<open>scheduled_time\<close> is 14:30:00 (52200 seconds into the day), the wall-clock
  reading, where the UTC instant of the target is 13:30:00 (48600); read back the way
  \<^verbatim>\<open>planifier_post\<close> reads it, as UTC shown in the zone, it becomes 15:30:00
  (55800), not the 14:30 the user entered.
\<close>

theorem schedule_stores_wall_clock_not_utc:
  "map scheduled_time (rows w_scheduled) = [52200]
   \<and> instant (target_date_local paris_winter (utc_now env0) ''today'' 14 30) div 1000000 = 48600
   \<and> strftime_seconds (planifier_local_time paris_winter 52200) = 55800"
  by code_simp

text \<open>
  Claim C2 at the example: the user cancels the scheduled post. The handler reports
  success and the row is gone, but the job \<^verbatim>\<open>post_1\<close> is still in the scheduler's
  store; when its trigger arrives the dispatcher is called for post 1.
\<close>

theorem cancel_leaves_trigger_armed:
  "fst (handle_confirm_cancel env0 w_opened) = Returns MAIN_MENU
   \<and> replies (snd (handle_confirm_cancel env0 w_opened)) = [R_scheduled 1, R_cancelled]
   \<and> rows (snd (handle_confirm_cancel env0 w_opened)) = []
   \<and> map fst (jobs (snd (handle_confirm_cancel env0 w_opened))) = [''post_1'']
   \<and> dispatched (trigger_arrives env0 ''post_1'' (snd (handle_confirm_cancel env0 w_opened))) = [1]"
  by code_simp


section \<open>Properties of sending and auto-destruction\<close>

lemma confirm_and_return_keeps:
  "fst (snd (confirm_and_return env acc)) = fst acc
   \<and> job_queue (snd (snd (confirm_and_return env acc))) = job_queue (snd acc)
   \<and> delivered (snd (snd (confirm_and_return env acc))) = delivered (snd acc)"
  by (simp add: confirm_and_return_def send_reply_def Let_def split: option.splits)

text \<open>
  The callback deletes nothing, whatever it is called with: the message it was queued for
  stays delivered.
\<close>

lemma delete_message_callback_deletes_nothing:
  "delivered (delete_message_callback has_context j w) = delivered w"
  by (simp add: delete_message_callback_def log_error_def)

text \<open>
  A job queue whose \<^verbatim>\<open>run_once\<close> has no parameter \<^verbatim>\<open>context\<close> turns
  every call of \<^verbatim>\<open>schedule_auto_destruction\<close> into a warning: nothing is queued,
  for any chat, message and duration.
\<close>

lemma context_keyword_rejected:
  "''context'' \<notin> set (run_once_parameters env)
     \<Longrightarrow> schedule_auto_destruction env chat_id message_id t w = (False, w)"
  by (simp add: schedule_auto_destruction_def run_once_keywords_def)

text \<open>
  The delivery does not depend on the destruct job: a send that returns a message is
  counted and recorded as delivered whatever \<^verbatim>\<open>schedule_auto_destruction\<close> does,
  and without a duration above 0 the queue is left as it was.
\<close>

lemma delivery_does_not_depend_on_the_job:
  assumes sent: "bot_send env channel post = Returns (Some mid)"
  shows "fst (snd (deliver env channel post (n, w))) = Suc n
       \<and> delivered (snd (snd (deliver env channel post (n, w)))) = delivered w @ [(channel, mid)]
       \<and> (auto_destruction_time (user_data w) = None
            \<or> (\<exists>t. auto_destruction_time (user_data w) = Some t \<and> t \<le> 0)
             \<longrightarrow> job_queue (snd (snd (deliver env channel post (n, w)))) = job_queue w)"
  using sent
  by (auto simp: deliver_def confirm_and_return_keeps schedule_auto_destruction_def
      destruct_job_def Let_def split: option.splits)

lemma no_context_keyword_no_job:
  assumes "''context'' \<notin> set (run_once_parameters env)"
  shows "job_queue (snd (snd (deliver env channel post acc))) = job_queue (snd acc)"
  using assms
  by (auto simp: deliver_def confirm_and_return_keeps context_keyword_rejected log_error_def
      Let_def split: option.splits outcome.splits)

text \<open>
  Claim C8 fails in the code. A text post is sent now, at second 1000, with an
  auto-destruction of 300 seconds; the send succeeds and the message comes back with id 42;
  the application has a job queue that takes every well-formed job. The handler reports one
  post sent and the message is delivered, but
  \<^verbatim>\<open>schedule_auto_destruction\<close> answers \<^verbatim>\<open>False\<close> and the job queue stays
  empty: \<^verbatim>\<open>run_once\<close> is called with the keyword \<^verbatim>\<open>context\<close>, which it
  does not declare, and the \<^verbatim>\<open>TypeError\<close> is swallowed. The claim has exactly one
  destruct job, due at second 1300, for message 42.
\<close>

theorem auto_destruction_job_is_never_queued:
  "auto_destruction_time (user_data w_send) = Some 300
   \<and> fst (send_post_now send_env0 None w_send) = Returns (Some MAIN_MENU)
   \<and> delivered (snd (send_post_now send_env0 None w_send)) = [(PStr ''@chan'', 42)]
   \<and> replies (snd (send_post_now send_env0 None w_send)) = [R_sent 1]
   \<and> application_job_queue send_env0 \<and> run_once_ok send_env0 ''auto_delete_42''
   \<and> ''context'' \<in> set run_once_keywords \<and> ''context'' \<notin> set (run_once_parameters send_env0)
   \<and> fst (schedule_auto_destruction send_env0 (PStr ''@chan'') 42 300 w_send) = False
   \<and> job_queue (snd (send_post_now send_env0 None w_send)) = []"
  by code_simp


section \<open>Properties of the content intake\<close>

lemma attempt_user_data [simp]: "user_data (attempt b d w) = user_data w"
  by (simp add: attempt_def)

lemma reply_and_return_user_data [simp]:
  "user_data (snd (reply_and_return env r st w)) = user_data w"
  by (simp add: reply_and_return_def send_reply_def)

lemma log_error_user_data [simp]: "user_data (log_error e w) = user_data w"
  by (simp add: log_error_def)

lemma fetch_photo_user_data: "user_data (snd (fetch_photo env p w)) = user_data w"
  by (simp add: fetch_photo_def Let_def split: outcome.splits prod.splits)

lemma fetch_video_user_data: "user_data (snd (fetch_video env v w)) = user_data w"
  by (simp add: fetch_video_def Let_def split: outcome.splits prod.splits option.splits)

lemma session_posts_cong: "user_data w1 = user_data w \<Longrightarrow> session_posts w1 = session_posts w"
  by (simp add: session_posts_def)

lemma add_post_posts:
  "posts (user_data (snd (add_post env p w))) = Some (session_posts w @ [p])"
  by (simp add: add_post_def Let_def split: option.splits)

lemma same_or_one_more_reply:
  "user_data w1 = user_data w \<Longrightarrow> same_or_one_more w (snd (reply_and_return env r st w1))"
  by (simp add: same_or_one_more_def)

lemma same_or_one_more_add:
  "user_data w1 = user_data w \<Longrightarrow> same_or_one_more w (snd (add_post env p w1))"
  using session_posts_cong [of w1 w] by (auto simp: same_or_one_more_def add_post_posts)

lemma intake_photo_posts: "same_or_one_more w (snd (intake_photo env base c p w))"
proof (cases "fetch_photo env p w")
  case (Pair r w1)
  with fetch_photo_user_data [of env p w] have u: "user_data w1 = user_data w" by simp
  show ?thesis
    by (cases r) (simp_all add: intake_photo_def Pair same_or_one_more_reply [OF u] same_or_one_more_add [OF u])
qed

lemma intake_video_posts: "same_or_one_more w (snd (intake_video env base c v w))"
proof (cases "fetch_video env v w")
  case (Pair r w1)
  with fetch_video_user_data [of env v w] have u: "user_data w1 = user_data w" by simp
  have u2: "\<And>f. user_data (w1\<lparr>files := f\<rparr>) = user_data w" using u by simp
  show ?thesis
  proof (cases r)
    case (Refused x)
    then show ?thesis by (simp add: intake_video_def Pair same_or_one_more_reply [OF u])
  next
    case (Fetched lp)
    then show ?thesis
      by (cases lp)
        (simp_all add: intake_video_def Pair same_or_one_more_reply [OF u]
          same_or_one_more_reply [OF u2] same_or_one_more_add [OF u])
  qed
qed

lemma intake_content_posts: "same_or_one_more w (snd (intake_content env base msg w))"
  by (simp add: intake_content_def intake_text_def intake_document_def Let_def
      intake_photo_posts intake_video_posts same_or_one_more_add same_or_one_more_reply
      split: option.splits list.splits)

lemma intake_body_posts:
  "posts (user_data (snd (intake_body env msg w))) = posts (user_data w)
   \<or> (length (session_posts w) < 24
       \<and> (\<exists>p. posts (user_data (snd (intake_body env msg w))) = Some (session_posts w @ [p])))"
  using intake_content_posts [of w env _ msg]
  by (auto simp: intake_body_def same_or_one_more_def split: option.splits)

lemma handle_post_content_posts:
  "posts (user_data (snd (handle_post_content env msg w))) = posts (user_data (snd (intake_body env msg w)))"
  by (cases "intake_body env msg w")
     (simp add: handle_post_content_def split: outcome.splits)

text \<open>
  Claim C10. One call of \<^verbatim>\<open>handle_post_content\<close> leaves the list of posts as it
  was or appends exactly one post; with 24 posts or more in the list it leaves the list as
  it was, so a list of at most 24 posts stays a list of at most 24 posts; and with a
  channel selected and the reply going through, the 24th post's successor is answered with
  the limit message and \<^verbatim>\<open>WAITING_PUBLICATION_CONTENT\<close>, nothing else changing.
\<close>

theorem post_list_never_exceeds_24:
  "(24 \<le> length (session_posts w)
      \<longrightarrow> posts (user_data (snd (handle_post_content env msg w))) = posts (user_data w))
   \<and> (posts (user_data (snd (handle_post_content env msg w))) = posts (user_data w)
        \<or> (\<exists>p. posts (user_data (snd (handle_post_content env msg w))) = Some (session_posts w @ [p])))
   \<and> (length (session_posts w) \<le> 24
        \<longrightarrow> length (session_posts (snd (handle_post_content env msg w))) \<le> 24)
   \<and> (24 \<le> length (session_posts w) \<and> selected_channel (user_data w) \<noteq> None
        \<and> reply_ok env R_limit_reached
        \<longrightarrow> handle_post_content env msg w
              = (Returns WAITING_PUBLICATION_CONTENT, w\<lparr>replies := replies w @ [R_limit_reached]\<rparr>))"
proof -
  let ?w' = "snd (handle_post_content env msg w)"
  from intake_body_posts [of env msg w]
  have alt: "posts (user_data ?w') = posts (user_data w)
     \<or> (length (session_posts w) < 24 \<and> (\<exists>p. posts (user_data ?w') = Some (session_posts w @ [p])))"
    by (simp add: handle_post_content_posts)
  then have a: "24 \<le> length (session_posts w) \<longrightarrow> posts (user_data ?w') = posts (user_data w)"
    by auto
  from alt have b: "posts (user_data ?w') = posts (user_data w)
     \<or> (\<exists>p. posts (user_data ?w') = Some (session_posts w @ [p]))" by auto
  from alt have c: "length (session_posts w) \<le> 24 \<longrightarrow> length (session_posts ?w') \<le> 24"
    by (auto simp: session_posts_def)
  have d: "24 \<le> length (session_posts w) \<and> selected_channel (user_data w) \<noteq> None
        \<and> reply_ok env R_limit_reached
        \<longrightarrow> handle_post_content env msg w
              = (Returns WAITING_PUBLICATION_CONTENT, w\<lparr>replies := replies w @ [R_limit_reached]\<rparr>)"
    by (auto simp: handle_post_content_def intake_body_def reply_and_return_def send_reply_def)
  from a b c d show ?thesis by blast
qed

text \<open>
  The theorem at a session of 24 posts that receives a text.
\<close>

theorem post_list_never_exceeds_24_witness:
  "handle_post_content media_env0 hello_message w_full
     = (Returns WAITING_PUBLICATION_CONTENT, w_full\<lparr>replies := [R_limit_reached]\<rparr>)
   \<and> length (session_posts (snd (handle_post_content media_env0 hello_message w_full))) \<le> 24"
proof -
  have l: "length (session_posts w_full) = 24" by code_simp
  have s: "selected_channel (user_data w_full) \<noteq> None" by (simp add: w_full_def cleared_def)
  have r: "reply_ok media_env0 R_limit_reached" by (simp add: media_env0_def)
  have e: "replies w_full = []" by (simp add: w_full_def w0_def)
  from post_list_never_exceeds_24 [of w_full media_env0 hello_message] l s r e
  show ?thesis by (simp add: session_posts_def)
qed

text \<open>
  Below the limit the same text is appended.
\<close>

lemma intake_appends_below_limit:
  "length (session_posts (snd (handle_post_content media_env0 hello_message w_intake))) = 1"
  by code_simp


section \<open>The order of download attempts\<close>

lemma send_reply_attempts: "send_reply env r w = Some w1 \<Longrightarrow> attempts w1 = attempts w"
  by (auto simp: send_reply_def split: if_splits)

lemma edit_and_fail_attempts [simp]: "attempts (fst (snd (edit_and_fail env r w))) = attempts w"
  by (auto simp: edit_and_fail_def send_reply_def)

lemma attempt_attempts [simp]: "attempts (attempt b d w) = attempts w @ [b]"
  by (simp add: attempt_def)

lemma fetch_video_attempts:
  "\<exists>rest. attempts (snd (fetch_video env v w)) = attempts w @ BotAPI # rest
     \<and> (rest = []
         \<or> (\<exists>e t. answer (bot_download env (video_id v) (''downloads/video_'' @ video_id v @ ''.mp4''))
                     = Raises e
                  \<and> too_big_or_expired e \<and> rest = [Advanced t]))"
  by (auto simp: fetch_video_def Let_def split: outcome.splits prod.splits option.splits)

lemma pt_fallback_attempts:
  "attempts (fst (snd (pt_fallback env c w))) = attempts w
   \<or> (\<exists>t. attempts (fst (snd (pt_fallback env c w))) = attempts w @ [Advanced t])"
  by (auto simp: pt_fallback_def Let_def split: outcome.splits prod.splits)

lemma invalid_is_not_too_big: "\<not> too_big_or_expired ''Fichier invalide via API Bot''"
  by code_simp

lemma pt_download_attempts:
  "\<exists>rest. attempts (fst (snd (pt_download env (PStr c) w))) = attempts w @ BotAPI # rest
     \<and> (rest = []
         \<or> (\<exists>e t. answer (bot_download env c []) = Raises e
                  \<and> too_big_or_expired e \<and> rest = [Advanced t]))"
proof (cases "answer (bot_download env c [])")
  case (Returns p)
  then show ?thesis
    by (simp add: pt_download_def Let_def pt_download_failed_def invalid_is_not_too_big)
next
  case (Raises e)
  show ?thesis
  proof (cases "too_big_or_expired e")
    case False
    with Raises show ?thesis by (simp add: pt_download_def Let_def pt_download_failed_def)
  next
    case True
    from pt_fallback_attempts [of env c "attempt BotAPI (bot_download env c []) w"]
    show ?thesis using Raises True
      by (auto simp: pt_download_def Let_def pt_download_failed_def)
  qed
qed

lemma fetch_photo_attempts:
  "\<exists>rest. attempts (snd (fetch_photo env photo w)) = attempts w @ BotAPI # rest
     \<and> (rest = []
         \<or> (\<exists>e t. answer (bot_download env (photo_id photo) (''downloads/photo_'' @ photo_id photo @ ''.jpg''))
                     = Raises e
                  \<and> too_big e \<and> rest = [Advanced t]))"
  by (auto simp: fetch_photo_def Let_def split: outcome.splits prod.splits option.splits)

text \<open>
  The downloads, whatever the size of the item: the photo and the video branch of
  \<^verbatim>\<open>handle_post_content\<close> and the download of
  \<^verbatim>\<open>process_thumbnail_and_upload\<close> ask the Bot API first; an advanced client is
  asked after it, and only when the Bot API has raised an exception whose text says that
  the file is too big (for a video or a post, also that its reference has expired).
\<close>

lemma downloads_ask_bot_api_first:
  "(\<exists>rest. attempts (snd (fetch_photo env photo w)) = attempts w @ BotAPI # rest
      \<and> (rest \<noteq> []
           \<longrightarrow> (\<exists>e t. answer (bot_download env (photo_id photo) (''downloads/photo_'' @ photo_id photo @ ''.jpg''))
                        = Raises e
                     \<and> too_big e \<and> rest = [Advanced t])))
   \<and> (\<exists>rest. attempts (snd (fetch_video env v w)) = attempts w @ BotAPI # rest
      \<and> (rest \<noteq> []
           \<longrightarrow> (\<exists>e t. answer (bot_download env (video_id v) (''downloads/video_'' @ video_id v @ ''.mp4''))
                        = Raises e
                     \<and> too_big_or_expired e \<and> rest = [Advanced t])))
   \<and> (\<exists>rest. attempts (fst (snd (pt_download env (PStr c) w))) = attempts w @ BotAPI # rest
      \<and> (rest \<noteq> []
           \<longrightarrow> (\<exists>e t. answer (bot_download env c []) = Raises e
                     \<and> too_big_or_expired e \<and> rest = [Advanced t])))"
  using fetch_photo_attempts [of env photo w] fetch_video_attempts [of env v w]
    pt_download_attempts [of env c w] by blast

lemma download_of_big_video:
  "or_zero (video_bytes big_video) > bot_api_limit
   \<and> attempts (snd (handle_post_content media_env0 big_video_message w_intake))
       = [BotAPI, Advanced ''pyrogram'']"
  by code_simp


section \<open>The transport of a dispatch\<close>

text \<open>
  \<^verbatim>\<open>send_post_now\<close> sends through \<^verbatim>\<open>context.bot\<close> and through nothing
  else. One send asks the Bot API once, whatever the post holds and whatever the answer.
\<close>

lemma confirm_and_return_attempts [simp]:
  "attempts (snd (snd (confirm_and_return env acc))) = attempts (snd acc)"
  by (simp add: confirm_and_return_def send_reply_def Let_def split: option.splits)

lemma schedule_auto_destruction_attempts [simp]:
  "attempts (snd (schedule_auto_destruction env c m t w)) = attempts w"
  by (simp add: schedule_auto_destruction_def)








section \<open>Properties of \<^verbatim>\<open>process_thumbnail_and_upload\<close>\<close>


lemma edit_and_return_user_data [simp]:
  "user_data (snd (edit_and_return env r b w)) = user_data w"
  by (auto simp: edit_and_return_def send_reply_def)

lemma edit_and_fail_user_data [simp]:
  "user_data (fst (snd (edit_and_fail env r w))) = user_data w"
  by (auto simp: edit_and_fail_def send_reply_def)

lemma pt_check_post_user_data [simp]: "user_data (snd (pt_check_post env post w)) = user_data w"
  by (simp add: pt_check_post_def Let_def split: option.splits)


lemma pt_local_file_user_data [simp]: "user_data (snd (pt_local_file env p w)) = user_data w"
  by (simp add: pt_local_file_def split: option.splits)

lemma pt_fallback_user_data [simp]: "user_data (fst (snd (pt_fallback env c w))) = user_data w"
  by (simp add: pt_fallback_def Let_def split: outcome.splits prod.splits)

lemma pt_download_failed_user_data [simp]:
  "user_data (fst (snd (pt_download_failed env c e w))) = user_data w"
  by (simp add: pt_download_failed_def)

lemma pt_download_user_data [simp]: "user_data (fst (snd (pt_download env c w))) = user_data w"
  by (simp add: pt_download_def Let_def split: pyval.splits outcome.splits)



lemma pt_after_swap_posts [simp]:
  "posts (user_data (snd (pt_after_swap env w))) = posts (user_data w)"
  by (auto simp: pt_after_swap_def send_reply_def Let_def)







lemma cleanup_user_data [simp]: "user_data (w\<lparr>files := f\<rparr>) = user_data w"
  by simp

lemma process_posts:
  "posts (user_data (snd (process_thumbnail_and_upload env i w)))
     = posts (user_data (fst (snd (pt_body env i w))))"
  by (auto simp: process_thumbnail_and_upload_def Let_def send_reply_def log_error_def
      split: outcome.splits option.splits)



text \<open>
  Two of the failing stages on their own: a post that is not there, a thumbnail that is
  not there.
\<close>

lemma missing_post_leaves_posts:
  "pt_locate i w = Ret b \<Longrightarrow>
     fst (process_thumbnail_and_upload env i w) = Returns b
     \<and> user_data (snd (process_thumbnail_and_upload env i w)) = user_data w"
  by (simp add: process_thumbnail_and_upload_def pt_body_def Let_def)

lemma missing_thumbnail_leaves_posts:
  assumes "\<forall>c. get_thumbnail env c (effective_user env) = ThumbNone"
  shows "posts (user_data (snd (process_thumbnail_and_upload env i w))) = posts (user_data w)"
proof (cases "pt_locate i w")
  case (Next j)
  have "posts (user_data (fst (snd (pt_with_post env j post w)))) = posts (user_data w)" for post
  proof (cases "pt_check_post env post w")
    case (Pair r w1)
    with pt_check_post_user_data [of env post w] have u: "user_data w1 = user_data w" by simp
    show ?thesis
    proof (cases r)
      case n: (Next clean)
      from assms have "pt_thumbnail env clean w1 = edit_and_return env E_no_thumbnail False w1"
        by (simp add: pt_thumbnail_def)
      with Pair n u show ?thesis
        by (auto simp: pt_with_post_def edit_and_return_def send_reply_def)
    qed (simp_all add: pt_with_post_def Pair u)
  qed
  with Next show ?thesis by (simp add: process_posts pt_body_def)
qed (simp_all add: process_posts pt_body_def)

text \<open>
  Claim C9 at the post \<^verbatim>\<open>EMPTY\<close>: the Bot API leaves an empty file
  \<^verbatim>\<open>file_0.mp4\<close> that was not there before; the check of line 3188 raises before
  \<^verbatim>\<open>temp_files.append\<close>, the function returns \<^verbatim>\<open>False\<close> with the download
  error, and after its \<^verbatim>\<open>finally\<close> block the file is still on disk.
\<close>

theorem empty_download_is_left_on_disk:
  "fst (process_thumbnail_and_upload media_env0 0 (w_thumb ''EMPTY'')) = Returns False
   \<and> replies (snd (process_thumbnail_and_upload media_env0 0 (w_thumb ''EMPTY'')))
       = [E_validating, E_downloading, E_download_error]
   \<and> files (w_thumb ''EMPTY'') ''file_0.mp4'' = None
   \<and> files (snd (process_thumbnail_and_upload media_env0 0 (w_thumb ''EMPTY''))) ''file_0.mp4''
       = Some (regular_file 0)"
  by code_simp

text \<open>
  A download that passes the check is entered in \<^verbatim>\<open>temp_files\<close> and removed.
\<close>

lemma good_download_is_cleaned_up:
  "files (snd (process_thumbnail_and_upload media_env0 0 (w_thumb ''OK''))) ''file_1.mp4'' = None
   \<and> files (snd (process_thumbnail_and_upload media_env0 0 (w_thumb ''BIG''))) ''temp_5_1700000000'' = None"
  by code_simp


section \<open>The temporary files of \<^verbatim>\<open>prepare_thumbnail\<close>\<close>

text \<open>
  \<^verbatim>\<open>optimize_thumbnail\<close> touches its output file only.
\<close>

lemma try_remove_other: "q \<noteq> p \<Longrightarrow> try_remove ok f p q = f q"
  by (simp add: try_remove_def)

lemma optimize_thumbnail_other_files:
  assumes "q \<noteq> path_join (temp_folder cfg) ''thumb_temp.jpg''"
  shows "snd (optimize_thumbnail cfg env f p None) q = f q"
proof -
  let ?out = "path_join (temp_folder cfg) ''thumb_temp.jpg''"
  have fail: "\<And>g. g q = f q \<Longrightarrow> snd (optimize_failed env g ?out) q = f q"
    using assms by (simp add: optimize_failed_def try_remove_other)
  show ?thesis
  proof (cases "makedirs_ok env ?out")
    case False
    then show ?thesis by (simp add: optimize_thumbnail_def fail)
  next
    case True
    show ?thesis
    proof (cases "image_open env p")
      case None
      with True show ?thesis by (simp add: optimize_thumbnail_def fail)
    next
      case (Some save)
      show ?thesis
      proof (cases "save (thumb_quality cfg)")
        case None
        with True Some show ?thesis by (simp add: optimize_thumbnail_def fail)
      next
        case sz: (Some sz)
        have g: "(f(?out \<mapsto> regular_file sz)) q = f q" using assms by simp
        show ?thesis
        proof (cases "reduce_quality save (max_thumb_size cfg) (thumb_quality cfg) sz")
          case None
          with True Some sz assms fail [of "f(?out \<mapsto> regular_file sz)", OF g] show ?thesis
            by (simp add: optimize_thumbnail_def Let_def)
        next
          case r: (Some qs)
          with True Some sz assms show ?thesis
            by (cases qs) (simp add: optimize_thumbnail_def Let_def)
        qed
      qed
    qed
  qed
qed

text \<open>
  On its normal path \<^verbatim>\<open>prepare_thumbnail\<close> removes the file it downloaded, when the
  operating system lets it; the optimised thumbnail is what it hands to its caller.
\<close>

lemma prepare_thumbnail_removes_download:
  assumes dirs: "temp_makedirs_ok env"
    and dl: "answer (download_media env tid
               (path_join (temp_folder cfg) (''thumb_download_'' @ urandom_hex env @ ''.jpg'')))
             = Returns (Some p)"
    and p: "p \<noteq> []"
    and rm: "rm_ok env p"
  shows "snd (prepare_thumbnail cfg env f tid) p = None"
proof -
  let ?d = "download_media env tid
               (path_join (temp_folder cfg) (''thumb_download_'' @ urandom_hex env @ ''.jpg''))"
  let ?f1 = "after_download f ?d"
  obtain res f2 where opt: "optimize_thumbnail cfg env ?f1 p None = (res, f2)" by force
  with dirs dl p have "snd (prepare_thumbnail cfg env f tid) = try_remove (rm_ok env) f2 p"
    by (simp add: prepare_thumbnail_def Let_def)
  with rm show ?thesis by (auto simp: try_remove_def path_exists_def)
qed

end
